theory Spec2Isabelle
  imports Main "HOL-Library.Word"
begin

unbundle bit_operations_syntax

section \<open>The globalnet registry (package broker)\<close>

subsection \<open>Data model\<close>

text \<open>
  The Go struct \<^verbatim>\<open>ClusterInfo\<close> with its two JSON fields \<^verbatim>\<open>cluster_id\<close> and
  \<^verbatim>\<open>global_cidr\<close>.
\<close>

record ClusterInfo =
  ClusterID :: string
  GlobalCidr :: "string list"

subsection \<open>The merge of UpdateGlobalnetConfigMap\<close>

text \<open>
  The \<^verbatim>\<open>for k, value := range clusterInfo\<close> loop of \<^verbatim>\<open>UpdateGlobalnetConfigMap\<close>.
  The loop has no \<^verbatim>\<open>break\<close>: it visits every index, overwrites the \<^verbatim>\<open>GlobalCidr\<close>
  of every element whose \<^verbatim>\<open>ClusterID\<close> equals the new one and sets the flag
  \<^verbatim>\<open>exists\<close>. The function returns the slice after the loop and the final flag.
\<close>

fun mergeLoop :: "ClusterInfo \<Rightarrow> ClusterInfo list \<Rightarrow> bool \<Rightarrow> ClusterInfo list \<times> bool" where
  "mergeLoop newCluster [] ex = ([], ex)"
| "mergeLoop newCluster (v # rest) ex =
     (if ClusterID v = ClusterID newCluster
      then (case mergeLoop newCluster rest True of
              (rest', ex') \<Rightarrow> (v\<lparr>GlobalCidr := GlobalCidr newCluster\<rparr> # rest', ex'))
      else (case mergeLoop newCluster rest ex of
              (rest', ex') \<Rightarrow> (v # rest', ex')))"

text \<open>
  The loop followed by \<^verbatim>\<open>if !exists { clusterInfo = append(clusterInfo, newEntry) }\<close>,
  where \<^verbatim>\<open>newEntry\<close> copies the two fields of \<^verbatim>\<open>newCluster\<close>.
\<close>

definition upsert :: "ClusterInfo list \<Rightarrow> ClusterInfo \<Rightarrow> ClusterInfo list" where
  "upsert clusterInfo newCluster =
     (case mergeLoop newCluster clusterInfo False of
        (clusterInfo', ex) \<Rightarrow>
          if \<not> ex
          then clusterInfo' @ [\<lparr>ClusterID = ClusterID newCluster, GlobalCidr = GlobalCidr newCluster\<rparr>]
          else clusterInfo')"

subsection \<open>The config map and the API server\<close>

text \<open>
  The constants of the package, and the part of \<^verbatim>\<open>v1.ConfigMap\<close> the code fills in:
  name, namespace, labels and the flat string-to-string \<^verbatim>\<open>Data\<close> map.
\<close>

definition GlobalCIDRConfigMapName :: string where
  "GlobalCIDRConfigMapName = ''submariner-globalnet-info''"

definition GlobalnetStatusKey :: string where
  "GlobalnetStatusKey = ''globalnetEnabled''"

definition ClusterInfoKey :: string where
  "ClusterInfoKey = ''clusterinfo''"

definition GlobalnetCidrRange :: string where
  "GlobalnetCidrRange = ''globalnetCidrRange''"

definition GlobalnetClusterSize :: string where
  "GlobalnetClusterSize = ''globalnetClusterSize''"

record ConfigMap =
  Name :: string
  Namespace :: string
  Labels :: "string \<rightharpoonup> string"
  Data :: "string \<rightharpoonup> string"

text \<open>
  Go \<^verbatim>\<open>error\<close> values as data. \<^verbatim>\<open>StatusError\<close> carries the reason of an API status
  error; \<^verbatim>\<open>errors.IsAlreadyExists\<close> tests for the reason \<^verbatim>\<open>AlreadyExists\<close>. The two
  \<^verbatim>\<open>fmt.Errorf\<close> wrappers of \<^verbatim>\<open>CreateGlobalnetConfigMap\<close> keep the wrapped error.
\<close>

datatype reason = AlreadyExists | NotFound | Other string

datatype error =
    StatusError reason
  | JSONError string
  | ClientsetError string
  | ParseError string string
  | ErrorCreatingClientset error
  | ErrorCreatingConfigMap error

fun IsAlreadyExists :: "error \<Rightarrow> bool" where
  "IsAlreadyExists (StatusError r) = (r = AlreadyExists)"
| "IsAlreadyExists _ = False"

text \<open>
  The cluster behind a \<^verbatim>\<open>rest.Config\<close>, as far as this package talks to it: whether
  \<^verbatim>\<open>kubernetes.NewForConfig\<close> fails, whether a request meets a failure of its own
  (transport, authorisation), and the config maps stored under (namespace, name).
  The three calls below are the contract of the Kubernetes API the package relies on;
  the API server is not part of the repository. \<^verbatim>\<open>Create\<close> refuses a name that is taken
  with \<^verbatim>\<open>AlreadyExists\<close> and stores nothing; \<^verbatim>\<open>Update\<close> replaces the stored object
  wholesale and needs it to exist; \<^verbatim>\<open>Get\<close> fails with \<^verbatim>\<open>NotFound\<close> when it is absent.
\<close>

record cluster =
  clientsetFailure :: "string option"
  requestFailure :: "string option"
  configMaps :: "(string \<times> string) \<rightharpoonup> ConfigMap"

definition NewForConfig :: "cluster \<Rightarrow> error + cluster" where
  "NewForConfig config =
     (case clientsetFailure config of
        Some e \<Rightarrow> Inl (ClientsetError e)
      | None \<Rightarrow> Inr config)"

definition Create :: "cluster \<Rightarrow> string \<Rightarrow> ConfigMap \<Rightarrow> (error + ConfigMap) \<times> cluster" where
  "Create c namespace cm =
     (case requestFailure c of
        Some e \<Rightarrow> (Inl (StatusError (Other e)), c)
      | None \<Rightarrow>
          (case configMaps c (namespace, Name cm) of
             Some _ \<Rightarrow> (Inl (StatusError AlreadyExists), c)
           | None \<Rightarrow>
               (Inr (cm\<lparr>Namespace := namespace\<rparr>),
                c\<lparr>configMaps := (configMaps c)((namespace, Name cm) \<mapsto> cm\<lparr>Namespace := namespace\<rparr>)\<rparr>)))"

definition Update :: "cluster \<Rightarrow> string \<Rightarrow> ConfigMap \<Rightarrow> (error + ConfigMap) \<times> cluster" where
  "Update c namespace cm =
     (case requestFailure c of
        Some e \<Rightarrow> (Inl (StatusError (Other e)), c)
      | None \<Rightarrow>
          (case configMaps c (namespace, Name cm) of
             None \<Rightarrow> (Inl (StatusError NotFound), c)
           | Some _ \<Rightarrow>
               (Inr (cm\<lparr>Namespace := namespace\<rparr>),
                c\<lparr>configMaps := (configMaps c)((namespace, Name cm) \<mapsto> cm\<lparr>Namespace := namespace\<rparr>)\<rparr>)))"

definition Get :: "cluster \<Rightarrow> string \<Rightarrow> string \<Rightarrow> error + ConfigMap" where
  "Get c namespace name =
     (case requestFailure c of
        Some e \<Rightarrow> Inl (StatusError (Other e))
      | None \<Rightarrow>
          (case configMaps c (namespace, name) of
             None \<Rightarrow> Inl (StatusError NotFound)
           | Some cm \<Rightarrow> Inr cm))"

subsection \<open>NewGlobalnetConfigMap and CreateGlobalnetConfigMap\<close>

text \<open>
  \<^verbatim>\<open>fmt.Sprint\<close> of a \<^verbatim>\<open>uint\<close>: its decimal digits, most significant first, \<^verbatim>\<open>"0"\<close>
  for zero. The \<^verbatim>\<open>uint\<close> is taken as 64 bits wide; no arithmetic is done on it.
\<close>

function decimal :: "nat \<Rightarrow> string" where
  "decimal n = (if n < 10 then [''0123456789'' ! n]
                else decimal (n div 10) @ [''0123456789'' ! (n mod 10)])"
  by pat_completeness auto
termination
  by (relation "measure id") auto

definition Sprint :: "64 word \<Rightarrow> string" where
  "Sprint n = decimal (unat n)"

text \<open>
  \<^verbatim>\<open>NewGlobalnetConfigMap\<close>. \<^verbatim>\<open>json.Marshal\<close> belongs to the Go standard library and is
  a parameter: \<open>Marshal s\<close> is the JSON text of the string \<open>s\<close>, or an error, which the
  function returns as it is.
\<close>

definition NewGlobalnetConfigMap ::
  "(string \<Rightarrow> error + string) \<Rightarrow> bool \<Rightarrow> string \<Rightarrow> 64 word \<Rightarrow> string \<Rightarrow> error + ConfigMap" where
  "NewGlobalnetConfigMap Marshal globalnetEnabled defaultGlobalCidrRange defaultGlobalClusterSize namespace =
     (let labels = [''component'' \<mapsto> ''submariner-globalnet''] in
      case Marshal defaultGlobalCidrRange of
        Inl err \<Rightarrow> Inl err
      | Inr cidrRange \<Rightarrow>
          (let data =
             (if globalnetEnabled
              then [GlobalnetStatusKey \<mapsto> ''true'',
                    GlobalnetCidrRange \<mapsto> cidrRange,
                    GlobalnetClusterSize \<mapsto> Sprint defaultGlobalClusterSize,
                    ClusterInfoKey \<mapsto> ''[]'']
              else [GlobalnetStatusKey \<mapsto> ''false'',
                    ClusterInfoKey \<mapsto> ''[]''])
           in Inr \<lparr>Name = GlobalCIDRConfigMapName, Namespace = namespace,
                    Labels = labels, Data = data\<rparr>))"

text \<open>
  \<^verbatim>\<open>CreateGlobalnetConfigMap\<close>: the returned error (\<open>None\<close> is Go's \<^verbatim>\<open>nil\<close>) and the
  cluster after the call.
\<close>

definition CreateGlobalnetConfigMap ::
  "(string \<Rightarrow> error + string) \<Rightarrow> cluster \<Rightarrow> bool \<Rightarrow> string \<Rightarrow> 64 word \<Rightarrow> string
     \<Rightarrow> error option \<times> cluster" where
  "CreateGlobalnetConfigMap Marshal config globalnetEnabled defaultGlobalCidrRange
       defaultGlobalClusterSize namespace =
     (case NewForConfig config of
        Inl err \<Rightarrow> (Some (ErrorCreatingClientset err), config)
      | Inr clientset \<Rightarrow>
          (case NewGlobalnetConfigMap Marshal globalnetEnabled defaultGlobalCidrRange
                  defaultGlobalClusterSize namespace of
             Inl err \<Rightarrow> (Some (ErrorCreatingConfigMap err), clientset)
           | Inr gnConfigMap \<Rightarrow>
               (case Create clientset namespace gnConfigMap of
                  (Inr _, clientset') \<Rightarrow> (None, clientset')
                | (Inl err, clientset') \<Rightarrow>
                    if IsAlreadyExists err then (None, clientset') else (Some err, clientset'))))"

subsection \<open>UpdateGlobalnetConfigMap and GetGlobalnetConfigMap\<close>

text \<open>
  \<^verbatim>\<open>json.Unmarshal\<close> into a \<^verbatim>\<open>[]ClusterInfo\<close> and \<^verbatim>\<open>json.MarshalIndent\<close> of one are
  parameters as well. Reading a missing key of a Go map gives the empty string. The
  function mutates the caller's \<^verbatim>\<open>configMap\<close> before it sends it; the model returns the
  error and the cluster after the call.
\<close>

definition UpdateGlobalnetConfigMap ::
  "(string \<Rightarrow> error + ClusterInfo list) \<Rightarrow> (ClusterInfo list \<Rightarrow> error + string)
     \<Rightarrow> cluster \<Rightarrow> string \<Rightarrow> ConfigMap \<Rightarrow> ClusterInfo \<Rightarrow> error option \<times> cluster" where
  "UpdateGlobalnetConfigMap Unmarshal MarshalIndent k8sClientset namespace configMap newCluster =
     (case Unmarshal (case Data configMap ClusterInfoKey of None \<Rightarrow> [] | Some s \<Rightarrow> s) of
        Inl err \<Rightarrow> (Some err, k8sClientset)
      | Inr clusterInfo \<Rightarrow>
          (case MarshalIndent (upsert clusterInfo newCluster) of
             Inl err \<Rightarrow> (Some err, k8sClientset)
           | Inr data \<Rightarrow>
               (case Update k8sClientset namespace
                       (configMap\<lparr>Data := (Data configMap)(ClusterInfoKey \<mapsto> data)\<rparr>) of
                  (Inl err, k8sClientset') \<Rightarrow> (Some err, k8sClientset')
                | (Inr _, k8sClientset') \<Rightarrow> (None, k8sClientset'))))"

definition GetGlobalnetConfigMap :: "cluster \<Rightarrow> string \<Rightarrow> error + ConfigMap" where
  "GetGlobalnetConfigMap k8sClientset namespace =
     Get k8sClientset namespace GlobalCIDRConfigMapName"

section \<open>CIDR intersection (package cidr of the submariner library)\<close>

text \<open>
  Modelled from the spec: \<^verbatim>\<open>cidr.IsOverlapping\<close>, which \<^verbatim>\<open>checkOverlappingCIDRs\<close> calls, is
  not under src. The spec (section 4.3) gives the test: two CIDR prefixes intersect iff
  one prefix's network address falls within the other's range, whichever has the longer
  prefix, for IPv4 and for IPv6; a subnet is tested against every subnet of a list. An
  address is a 32-bit or a 128-bit word; a prefix is an address with the number of leading
  one bits of its mask. An address lies in the range of a prefix when both agree under
  the mask; addresses of different families never do.
\<close>

datatype IP = IPv4 "32 word" | IPv6 "128 word"

datatype IPNet = IPNet IP nat

definition CIDRMask :: "nat \<Rightarrow> 'a::len word" where
  "CIDRMask ones = NOT (mask (LENGTH('a) - ones))"

fun Contains :: "IPNet \<Rightarrow> IP \<Rightarrow> bool" where
  "Contains (IPNet (IPv4 n) ones) (IPv4 ip) = (ip AND CIDRMask ones = n AND CIDRMask ones)"
| "Contains (IPNet (IPv6 n) ones) (IPv6 ip) = (ip AND CIDRMask ones = n AND CIDRMask ones)"
| "Contains _ _ = False"

fun networkAddress :: "IPNet \<Rightarrow> IP" where
  "networkAddress (IPNet (IPv4 n) ones) = IPv4 (n AND CIDRMask ones)"
| "networkAddress (IPNet (IPv6 n) ones) = IPv6 (n AND CIDRMask ones)"

definition intersects :: "IPNet \<Rightarrow> IPNet \<Rightarrow> bool" where
  "intersects a b = (Contains a (networkAddress b) \<or> Contains b (networkAddress a))"

text \<open>
  The test of one subnet against a list. Parsing the text of a prefix belongs to the Go
  standard library (\<^verbatim>\<open>net.ParseCIDR\<close>) and is a parameter; a text that does not parse is
  the error the caller reports.
\<close>

fun overlapsAny :: "(string \<Rightarrow> error + IPNet) \<Rightarrow> string list \<Rightarrow> IPNet \<Rightarrow> error + bool" where
  "overlapsAny ParseCIDR [] newNet = Inr False"
| "overlapsAny ParseCIDR (v # rest) newNet =
     (case ParseCIDR v of
        Inl err \<Rightarrow> Inl err
      | Inr baseNet \<Rightarrow>
          if intersects baseNet newNet then Inr True
          else overlapsAny ParseCIDR rest newNet)"

definition IsOverlapping :: "(string \<Rightarrow> error + IPNet) \<Rightarrow> string list \<Rightarrow> string \<Rightarrow> error + bool" where
  "IsOverlapping ParseCIDR cidrList cidr =
     (case ParseCIDR cidr of
        Inl err \<Rightarrow> Inl err
      | Inr newNet \<Rightarrow> overlapsAny ParseCIDR cidrList newNet)"

section \<open>The deployment check (package cmd)\<close>

subsection \<open>Messages and the status report\<close>

text \<open>
  Every message the command builds, one constructor per format string, with the
  arguments of \<^verbatim>\<open>fmt.Sprintf\<close> in their order.
\<close>

datatype message =
    RetrievingResource string
  | SubmMissingMessage
  | GlobalnetDetected
  | NonGlobalnetDetected
  | ErrorListingEndpoints string
  | MultipleEndpoints string string string
  | ErrorParsingCIDR string error
  | CIDROverlaps string string string "string list"
  | NoOverlappingGlobalnetCIDRs
  | NoOverlappingCIDRs
  | CheckingPods string
  | AllPodsRunning
  | ErrorObtainingDeployment string error
  | DeploymentReplicas string "32 word" "32 word"
  | ErrorObtainingDaemonset string error
  | DaemonSetPods string "32 word" "32 word"
  | ErrorObtainingPods error
  | PodNotRunning string string
  | PodRestarted string "32 word"

datatype Result = Success | Failure

datatype line =
    Started message
  | Ended Result message "message list" "message list" "message list"

text \<open>
  Modelled from the spec: the process-wide report object \<^verbatim>\<open>status\<close> (type \<^verbatim>\<open>cli.Status\<close>
  of pkg/internal/cli) is not under src. The spec gives a report of issues with a
  severity (failure or warning), accumulated and never discarded, and the result of a
  check as "no issues". A message is queued under its severity; \<open>End\<close> closes the current
  status with a result and moves the queued messages to the printed report, and does
  nothing when no status is open; \<open>Start\<close> closes the open status as a success and
  opens the next; \<open>HasFailureMessages\<close> tells whether a failure is queued.
\<close>

record Status =
  status :: "message option"
  successQueue :: "message list"
  failureQueue :: "message list"
  warningQueue :: "message list"
  printed :: "line list"

definition QueueSuccessMessage :: "message \<Rightarrow> Status \<Rightarrow> Status" where
  "QueueSuccessMessage m s = s\<lparr>successQueue := successQueue s @ [m]\<rparr>"

definition QueueFailureMessage :: "message \<Rightarrow> Status \<Rightarrow> Status" where
  "QueueFailureMessage m s = s\<lparr>failureQueue := failureQueue s @ [m]\<rparr>"

definition QueueWarningMessage :: "message \<Rightarrow> Status \<Rightarrow> Status" where
  "QueueWarningMessage m s = s\<lparr>warningQueue := warningQueue s @ [m]\<rparr>"

definition HasFailureMessages :: "Status \<Rightarrow> bool" where
  "HasFailureMessages s = (failureQueue s \<noteq> [])"

definition End :: "Result \<Rightarrow> Status \<Rightarrow> Status" where
  "End output s =
     (case status s of
        None \<Rightarrow> s
      | Some current \<Rightarrow>
          \<lparr>status = None, successQueue = [], failureQueue = [], warningQueue = [],
           printed = printed s @
             [Ended output current (successQueue s) (failureQueue s) (warningQueue s)]\<rparr>)"

definition Start :: "message \<Rightarrow> Status \<Rightarrow> Status" where
  "Start m s = (let s' = End Success s in s'\<lparr>status := Some m, printed := printed s' @ [Started m]\<rparr>)"

definition newStatus :: Status where
  "newStatus = \<lparr>status = None, successQueue = [], failureQueue = [], warningQueue = [], printed = []\<rparr>"

subsection \<open>The clusters\<close>

text \<open>
  The objects the checks read, with the fields they read. \<^verbatim>\<open>int32\<close> counters are 32-bit
  words; \<^verbatim>\<open>Spec.Replicas\<close> is a pointer and may be \<^verbatim>\<open>nil\<close>.
\<close>

record Endpoint =
  Endpoint_Name :: string
  Spec_ClusterID :: string
  Spec_Subnets :: "string list"

record Submariner =
  Submariner_Namespace :: string
  Spec_GlobalCIDR :: string
  Spec_ServiceDiscoveryEnabled :: bool
  Status_ClusterID :: string

record Deployment =
  Spec_Replicas :: "32 word option"
  Status_AvailableReplicas :: "32 word"

record DaemonSet =
  Status_CurrentNumberScheduled :: "32 word"
  Status_DesiredNumberScheduled :: "32 word"

record ContainerStatus =
  RestartCount :: "32 word"

record Pod =
  Pod_Name :: string
  Status_Phase :: string
  Status_ContainerStatuses :: "ContainerStatus list"

definition PodRunning :: string where
  "PodRunning = ''Running''"

text \<open>
  What a cluster answers through its \<^verbatim>\<open>rest.Config\<close>: the two client constructors may
  fail; \<^verbatim>\<open>getSubmarinerResource\<close> (not under src) gives the Submariner resource or
  \<^verbatim>\<open>nil\<close>; the list and get calls give an error or the objects, by namespace and name.
\<close>

record Config =
  kubernetesClientError :: "error option"
  submarinerClientError :: "error option"
  getSubmarinerResource :: "Submariner option"
  Endpoints_List :: "string \<Rightarrow> error + Endpoint list"
  Deployments_Get :: "string \<Rightarrow> string \<Rightarrow> error + Deployment"
  DaemonSets_Get :: "string \<Rightarrow> string \<Rightarrow> error + DaemonSet"
  Pods_List :: "string \<Rightarrow> error + Pod list"

record restConfig =
  config :: Config
  clusterName :: string

text \<open>
  Modelled from the spec: \<^verbatim>\<open>exitOnError\<close> is not under src. The spec (section 7) makes a
  client that cannot be constructed, or a connection that cannot be obtained, fatal: the
  whole run is aborted. The abort is the left summand of a result, with the text and the
  error handed to \<^verbatim>\<open>exitOnError\<close>.
\<close>

datatype fatal = ExitOnError string error

subsection \<open>checkPods and its helpers\<close>

definition CheckDeployment :: "Config \<Rightarrow> string \<Rightarrow> string \<Rightarrow> Status \<Rightarrow> bool \<times> Status" where
  "CheckDeployment k8sClient namespace deploymentName s =
     (case Deployments_Get k8sClient namespace deploymentName of
        Inl err \<Rightarrow>
          (False, End Failure (QueueFailureMessage (ErrorObtainingDeployment deploymentName err) s))
      | Inr deployment \<Rightarrow>
          (let replicas = (case Spec_Replicas deployment of None \<Rightarrow> 1 | Some r \<Rightarrow> r) in
           if Status_AvailableReplicas deployment \<noteq> replicas
           then (False, End Failure (QueueFailureMessage
                   (DeploymentReplicas deploymentName replicas (Status_AvailableReplicas deployment)) s))
           else (True, s)))"

definition CheckDaemonset :: "Config \<Rightarrow> string \<Rightarrow> string \<Rightarrow> Status \<Rightarrow> bool \<times> Status" where
  "CheckDaemonset k8sClient namespace daemonSetName s =
     (case DaemonSets_Get k8sClient namespace daemonSetName of
        Inl err \<Rightarrow>
          (False, End Failure (QueueFailureMessage (ErrorObtainingDaemonset daemonSetName err) s))
      | Inr daemonSet \<Rightarrow>
          if Status_CurrentNumberScheduled daemonSet \<noteq> Status_DesiredNumberScheduled daemonSet
          then (False, End Failure (QueueFailureMessage
                  (DaemonSetPods daemonSetName (Status_DesiredNumberScheduled daemonSet)
                     (Status_CurrentNumberScheduled daemonSet)) s))
          else (True, s))"

text \<open>The inner loop of \<^verbatim>\<open>checkPodsStatus\<close> over the container statuses of one pod.\<close>

fun restartLoop :: "string \<Rightarrow> ContainerStatus list \<Rightarrow> Status \<Rightarrow> Status" where
  "restartLoop podName [] s = s"
| "restartLoop podName (c # rest) s =
     restartLoop podName rest
       (if 5 \<le> sint (RestartCount c)
        then QueueWarningMessage (PodRestarted podName (RestartCount c)) s
        else s)"

fun podLoop :: "Pod list \<Rightarrow> Status \<Rightarrow> bool \<times> Status" where
  "podLoop [] s = (True, s)"
| "podLoop (pod # rest) s =
     (if Status_Phase pod \<noteq> PodRunning
      then (False, End Failure (QueueFailureMessage
              (PodNotRunning (Pod_Name pod) (Status_Phase pod)) s))
      else podLoop rest (restartLoop (Pod_Name pod) (Status_ContainerStatuses pod) s))"

definition checkPodsStatus :: "Config \<Rightarrow> string \<Rightarrow> Status \<Rightarrow> bool \<times> Status" where
  "checkPodsStatus k8sClient operatorNamespace s =
     (case Pods_List k8sClient operatorNamespace of
        Inl err \<Rightarrow> (False, End Failure (QueueFailureMessage (ErrorObtainingPods err) s))
      | Inr pods \<Rightarrow> podLoop pods s)"

text \<open>
  \<^verbatim>\<open>checkPods\<close>: each \<^verbatim>\<open>if !Check... { return false }\<close> is a case on the result of the
  check, the false branch returning at once with the status the check left.
\<close>

definition checkPods :: "restConfig \<Rightarrow> Submariner \<Rightarrow> string \<Rightarrow> Status \<Rightarrow> fatal + bool \<times> Status" where
  "checkPods item submariner operatorNamespace s0 =
     (let s1 = Start (CheckingPods (clusterName item)) s0 in
      case kubernetesClientError (config item) of
        Some err \<Rightarrow> Inl (ExitOnError ''Error creating Kubernetes client'' err)
      | None \<Rightarrow>
          (let kubeClientSet = config item in
           Inr (case CheckDaemonset kubeClientSet operatorNamespace ''submariner-gateway'' s1 of
                  (False, s2) \<Rightarrow> (False, s2)
                | (True, s2) \<Rightarrow>
           (case CheckDaemonset kubeClientSet operatorNamespace ''submariner-routeagent'' s2 of
                  (False, s3) \<Rightarrow> (False, s3)
                | (True, s3) \<Rightarrow>
           (case (if Spec_ServiceDiscoveryEnabled submariner
                  then (case CheckDeployment kubeClientSet operatorNamespace
                               ''submariner-lighthouse-agent'' s3 of
                          (False, s3') \<Rightarrow> (False, s3')
                        | (True, s3') \<Rightarrow>
                            CheckDeployment kubeClientSet operatorNamespace
                              ''submariner-lighthouse-coredns'' s3')
                  else (True, s3)) of
                  (False, s4) \<Rightarrow> (False, s4)
                | (True, s4) \<Rightarrow>
           (case (if Spec_GlobalCIDR submariner \<noteq> []
                  then CheckDaemonset kubeClientSet operatorNamespace ''submariner-globalnet'' s4
                  else (True, s4)) of
                  (False, s5) \<Rightarrow> (False, s5)
                | (True, s5) \<Rightarrow>
           (case checkPodsStatus kubeClientSet operatorNamespace s5 of
                  (False, s6) \<Rightarrow> (False, s6)
                | (True, s6) \<Rightarrow>
                    (True, End Success (QueueSuccessMessage AllPodsRunning s6)))))))))"

subsection \<open>checkOverlappingCIDRs\<close>

text \<open>
  The three nested loops. \<^verbatim>\<open>cidr.IsOverlapping\<close> is the parameter \<open>isOverlapping\<close>.
  \<open>subnetLoop\<close> is \<^verbatim>\<open>for _, subnet := range dest.Spec.Subnets\<close>; \<open>checkPair\<close> is the body of
  the loop over \<^verbatim>\<open>dest\<close>, whose \<^verbatim>\<open>continue\<close> after the message for a shared cluster ID
  skips the subnets; \<open>destLoop\<close> runs it over \<^verbatim>\<open>endpointList.Items[i+1:]\<close>, the items after
  \<^verbatim>\<open>source\<close>; \<open>sourceLoop\<close> is the loop over \<^verbatim>\<open>source\<close>.
\<close>

fun subnetLoop ::
  "(string list \<Rightarrow> string \<Rightarrow> error + bool) \<Rightarrow> Endpoint \<Rightarrow> Endpoint \<Rightarrow> string list \<Rightarrow> Status \<Rightarrow> Status" where
  "subnetLoop isOverlapping source dest [] s = s"
| "subnetLoop isOverlapping source dest (subnet # rest) s =
     subnetLoop isOverlapping source dest rest
       (case isOverlapping (Spec_Subnets source) subnet of
          Inl err \<Rightarrow> QueueFailureMessage (ErrorParsingCIDR (Spec_ClusterID dest) err) s
        | Inr overlap \<Rightarrow>
            if overlap
            then QueueFailureMessage
                   (CIDROverlaps subnet (Spec_ClusterID dest) (Spec_ClusterID source)
                      (Spec_Subnets source)) s
            else s)"

definition checkPair ::
  "(string list \<Rightarrow> string \<Rightarrow> error + bool) \<Rightarrow> Endpoint \<Rightarrow> Endpoint \<Rightarrow> Status \<Rightarrow> Status" where
  "checkPair isOverlapping source dest s =
     (if Spec_ClusterID source = Spec_ClusterID dest
      then QueueFailureMessage
             (MultipleEndpoints (Endpoint_Name source) (Endpoint_Name dest) (Spec_ClusterID source)) s
      else subnetLoop isOverlapping source dest (Spec_Subnets dest) s)"

fun destLoop ::
  "(string list \<Rightarrow> string \<Rightarrow> error + bool) \<Rightarrow> Endpoint \<Rightarrow> Endpoint list \<Rightarrow> Status \<Rightarrow> Status" where
  "destLoop isOverlapping source [] s = s"
| "destLoop isOverlapping source (dest # rest) s =
     destLoop isOverlapping source rest (checkPair isOverlapping source dest s)"

fun sourceLoop ::
  "(string list \<Rightarrow> string \<Rightarrow> error + bool) \<Rightarrow> Endpoint list \<Rightarrow> Status \<Rightarrow> Status" where
  "sourceLoop isOverlapping [] s = s"
| "sourceLoop isOverlapping (source # items) s =
     sourceLoop isOverlapping items (destLoop isOverlapping source items s)"

definition checkOverlappingCIDRs ::
  "(string list \<Rightarrow> string \<Rightarrow> error + bool) \<Rightarrow> restConfig \<Rightarrow> Submariner \<Rightarrow> Status
     \<Rightarrow> fatal + bool \<times> Status" where
  "checkOverlappingCIDRs isOverlapping item submariner s0 =
     (case submarinerClientError (config item) of
        Some err \<Rightarrow> Inl (ExitOnError ''Unable to get the Submariner client'' err)
      | None \<Rightarrow>
          (let submarinerClient = config item;
               s1 = (if Spec_GlobalCIDR submariner \<noteq> []
                     then Start GlobalnetDetected s0
                     else Start NonGlobalnetDetected s0);
               localClusterName = Status_ClusterID submariner
           in case Endpoints_List submarinerClient (Submariner_Namespace submariner) of
                Inl err \<Rightarrow>
                  Inr (False, End Failure
                         (QueueFailureMessage (ErrorListingEndpoints localClusterName) s1))
              | Inr items \<Rightarrow>
                  (let s2 = sourceLoop isOverlapping items s1 in
                   if HasFailureMessages s2 then Inr (False, End Failure s2)
                   else Inr (True, End Success
                          (if Spec_GlobalCIDR submariner \<noteq> []
                           then QueueSuccessMessage NoOverlappingGlobalnetCIDRs s2
                           else QueueSuccessMessage NoOverlappingCIDRs s2)))))"

subsection \<open>validateSubmarinerDeployment\<close>

text \<open>
  The loop over \<^verbatim>\<open>configs\<close>, with the running \<^verbatim>\<open>validationStatus\<close> and the report.
  Go's \<^verbatim>\<open>&&\<close> evaluates its right operand only when the left one is true:
  \<^verbatim>\<open>validationStatus && checkPods(...)\<close> calls \<^verbatim>\<open>checkPods\<close> only while
  \<^verbatim>\<open>validationStatus\<close> is true, and is false without the call otherwise. The package
  variable \<^verbatim>\<open>OperatorNamespace\<close> (not under src) is a parameter.
\<close>

fun validateLoop ::
  "(string list \<Rightarrow> string \<Rightarrow> error + bool) \<Rightarrow> string \<Rightarrow> restConfig list \<Rightarrow> bool \<Rightarrow> Status
     \<Rightarrow> fatal + bool \<times> Status" where
  "validateLoop isOverlapping OperatorNamespace [] validationStatus s = Inr (validationStatus, s)"
| "validateLoop isOverlapping OperatorNamespace (item # rest) validationStatus s =
     (let s1 = Start (RetrievingResource (clusterName item)) s in
      case getSubmarinerResource (config item) of
        None \<Rightarrow>
          validateLoop isOverlapping OperatorNamespace rest validationStatus
            (End Success (QueueWarningMessage SubmMissingMessage s1))
      | Some submariner \<Rightarrow>
          (let s2 = End Success s1 in
           case (if validationStatus then checkPods item submariner OperatorNamespace s2
                 else Inr (False, s2)) of
             Inl exit \<Rightarrow> Inl exit
           | Inr (validationStatus1, s3) \<Rightarrow>
               (case (if validationStatus1
                      then checkOverlappingCIDRs isOverlapping item submariner s3
                      else Inr (False, s3)) of
                  Inl exit \<Rightarrow> Inl exit
                | Inr (validationStatus2, s4) \<Rightarrow>
                    validateLoop isOverlapping OperatorNamespace rest validationStatus2 s4)))"

text \<open>
  How the process ends: the function returns (exit status 0), calls \<^verbatim>\<open>os.Exit(1)\<close>, or
  is aborted by \<^verbatim>\<open>exitOnError\<close>. \<^verbatim>\<open>getMultipleRestConfigs\<close> (not under src) gives the
  configs or an error.
\<close>

datatype outcome = Returns | Exit nat | Aborted fatal

definition validateSubmarinerDeployment ::
  "(string list \<Rightarrow> string \<Rightarrow> error + bool) \<Rightarrow> string \<Rightarrow> error + restConfig list \<Rightarrow> Status
     \<Rightarrow> outcome \<times> Status" where
  "validateSubmarinerDeployment isOverlapping OperatorNamespace getMultipleRestConfigs s =
     (case getMultipleRestConfigs of
        Inl err \<Rightarrow> (Aborted (ExitOnError ''Error getting REST config for cluster'' err), s)
      | Inr configs \<Rightarrow>
          (case validateLoop isOverlapping OperatorNamespace configs True s of
             Inl exit \<Rightarrow> (Aborted exit, s)
           | Inr (validationStatus, s') \<Rightarrow>
               if \<not> validationStatus then (Exit 1, s') else (Returns, s')))"

section \<open>Derived notions and example data\<close>

subsection \<open>The issues of a run of the detector\<close>

text \<open>
  The failure messages the loops queue, read off the loops themselves by running them on
  an empty report: for one subnet of \<^verbatim>\<open>dest\<close>, for one pair, and for a whole list of
  endpoints. \<open>indexPairs n\<close> lists the pairs of positions \<open>(i, j)\<close> with \<open>i < j < n\<close>, by
  \<open>i\<close> and then by \<open>j\<close>.
\<close>

definition issuesOfSubnet ::
  "(string list \<Rightarrow> string \<Rightarrow> error + bool) \<Rightarrow> Endpoint \<Rightarrow> Endpoint \<Rightarrow> string \<Rightarrow> message list" where
  "issuesOfSubnet isOverlapping source dest subnet =
     failureQueue (subnetLoop isOverlapping source dest [subnet] newStatus)"

definition issuesOfPair ::
  "(string list \<Rightarrow> string \<Rightarrow> error + bool) \<Rightarrow> Endpoint \<Rightarrow> Endpoint \<Rightarrow> message list" where
  "issuesOfPair isOverlapping source dest =
     failureQueue (checkPair isOverlapping source dest newStatus)"

definition issuesOf ::
  "(string list \<Rightarrow> string \<Rightarrow> error + bool) \<Rightarrow> Endpoint list \<Rightarrow> message list" where
  "issuesOf isOverlapping items = failureQueue (sourceLoop isOverlapping items newStatus)"

definition indexPairs :: "nat \<Rightarrow> (nat \<times> nat) list" where
  "indexPairs n = concat (map (\<lambda>i. map (\<lambda>j. (i, j)) [Suc i..<n]) [0..<n])"

fun pairsFrom :: "'a list \<Rightarrow> ('a \<times> 'a) list" where
  "pairsFrom [] = []"
| "pairsFrom (x # xs) = map (Pair x) xs @ pairsFrom xs"

text \<open>Reading a decimal string back.\<close>

definition digitValue :: "char \<Rightarrow> nat" where
  "digitValue c = of_char c - 48"

definition decimalValue :: "string \<Rightarrow> nat" where
  "decimalValue ds = foldl (\<lambda>a c. 10 * a + digitValue c) 0 ds"

subsection \<open>Example data\<close>

definition allocationA :: ClusterInfo where
  "allocationA = \<lparr>ClusterID = ''A'', GlobalCidr = [''169.254.0.0/19'']\<rparr>"

definition allocationB :: ClusterInfo where
  "allocationB = \<lparr>ClusterID = ''B'', GlobalCidr = [''169.254.32.0/19'']\<rparr>"

definition allocationC :: ClusterInfo where
  "allocationC = \<lparr>ClusterID = ''C'', GlobalCidr = [''169.254.64.0/19'']\<rparr>"

definition allocationB' :: ClusterInfo where
  "allocationB' = \<lparr>ClusterID = ''B'', GlobalCidr = [''169.254.96.0/19'', ''169.254.128.0/19'']\<rparr>"

text \<open>A stand-in for \<^verbatim>\<open>json.Marshal\<close> on strings without characters to escape.\<close>

definition quoteMarshal :: "string \<Rightarrow> error + string" where
  "quoteMarshal s = Inr (CHR 0x22 # s @ [CHR 0x22])"

definition emptyBroker :: cluster where
  "emptyBroker = \<lparr>clientsetFailure = None, requestFailure = None, configMaps = Map.empty\<rparr>"

definition unreachableBroker :: cluster where
  "unreachableBroker =
     \<lparr>clientsetFailure = None, requestFailure = Some ''connection refused'',
      configMaps = Map.empty\<rparr>"

definition storedRecord :: ConfigMap where
  "storedRecord =
     \<lparr>Name = GlobalCIDRConfigMapName, Namespace = ''submariner-k8s-broker'',
      Labels = Map.empty, Data = [ClusterInfoKey \<mapsto> ''[{...}]'']\<rparr>"

definition populatedBroker :: cluster where
  "populatedBroker =
     \<lparr>clientsetFailure = None, requestFailure = None,
      configMaps = [(''submariner-k8s-broker'', GlobalCIDRConfigMapName) \<mapsto> storedRecord]\<rparr>"

text \<open>
  A stand-in for \<^verbatim>\<open>net.ParseCIDR\<close> that knows a few prefixes and rejects every other text
  with the error of the library.
\<close>

definition knownPrefixes :: "(string \<times> IPNet) list" where
  "knownPrefixes =
     [(''10.0.0.0/24'', IPNet (IPv4 0x0A000000) 24),
      (''10.1.0.0/24'', IPNet (IPv4 0x0A010000) 24),
      (''10.0.0.0/16'', IPNet (IPv4 0x0A000000) 16),
      (''10.0.1.0/24'', IPNet (IPv4 0x0A000100) 24),
      (''10.0.2.0/24'', IPNet (IPv4 0x0A000200) 24),
      (''2001:db8::/32'', IPNet (IPv6 0x20010DB8000000000000000000000000) 32),
      (''2001:db8:1::/48'', IPNet (IPv6 0x20010DB8000100000000000000000000) 48),
      (''2001:db8:2::/48'', IPNet (IPv6 0x20010DB8000200000000000000000000) 48)]"

definition parseKnown :: "string \<Rightarrow> error + IPNet" where
  "parseKnown s =
     (case map_of knownPrefixes s of
        None \<Rightarrow> Inl (ParseError ''CIDR address'' s)
      | Some n \<Rightarrow> Inr n)"

definition east :: Endpoint where
  "east = \<lparr>Endpoint_Name = ''east-gw'', Spec_ClusterID = ''east'',
           Spec_Subnets = [''10.0.0.0/16'']\<rparr>"

definition west :: Endpoint where
  "west = \<lparr>Endpoint_Name = ''west-gw'', Spec_ClusterID = ''west'',
           Spec_Subnets = [''10.0.1.0/24'', ''10.0.2.0/24'']\<rparr>"

definition north :: Endpoint where
  "north = \<lparr>Endpoint_Name = ''north-gw'', Spec_ClusterID = ''north'',
            Spec_Subnets = [''10.0.1.0/33'', ''10.0.1.0/24'']\<rparr>"

definition south :: Endpoint where
  "south = \<lparr>Endpoint_Name = ''south-gw'', Spec_ClusterID = ''south'',
            Spec_Subnets = [''10.1.0.0/24'']\<rparr>"

definition eastSecond :: Endpoint where
  "eastSecond = \<lparr>Endpoint_Name = ''east-gw-2'', Spec_ClusterID = ''east'',
                 Spec_Subnets = [''10.1.0.0/24'']\<rparr>"

definition eastThird :: Endpoint where
  "eastThird = \<lparr>Endpoint_Name = ''east-gw-3'', Spec_ClusterID = ''east'',
                Spec_Subnets = [''10.0.1.0/33'']\<rparr>"

text \<open>
  Two clusters of one mesh. In the first the gateway daemon set has no pod scheduled;
  the second is healthy. Both list the endpoints \<open>east\<close> and \<open>west\<close>, whose subnets
  overlap.
\<close>

definition submarinerOf :: "string \<Rightarrow> Submariner" where
  "submarinerOf clusterID =
     \<lparr>Submariner_Namespace = ''submariner-operator'', Spec_GlobalCIDR = [],
      Spec_ServiceDiscoveryEnabled = False, Status_ClusterID = clusterID\<rparr>"

definition brokenConfig :: Config where
  "brokenConfig =
     \<lparr>kubernetesClientError = None, submarinerClientError = None,
      getSubmarinerResource = Some (submarinerOf ''east''),
      Endpoints_List = (\<lambda>namespace. Inr [east, west]),
      Deployments_Get = (\<lambda>namespace name. Inl (StatusError NotFound)),
      DaemonSets_Get = (\<lambda>namespace name.
         if name = ''submariner-gateway''
         then Inr \<lparr>Status_CurrentNumberScheduled = 0, Status_DesiredNumberScheduled = 1\<rparr>
         else Inr \<lparr>Status_CurrentNumberScheduled = 1, Status_DesiredNumberScheduled = 1\<rparr>),
      Pods_List = (\<lambda>namespace. Inr [])\<rparr>"

definition healthyConfig :: Config where
  "healthyConfig =
     \<lparr>kubernetesClientError = None, submarinerClientError = None,
      getSubmarinerResource = Some (submarinerOf ''west''),
      Endpoints_List = (\<lambda>namespace. Inr [east, west]),
      Deployments_Get = (\<lambda>namespace name. Inl (StatusError NotFound)),
      DaemonSets_Get = (\<lambda>namespace name.
         Inr \<lparr>Status_CurrentNumberScheduled = 1, Status_DesiredNumberScheduled = 1\<rparr>),
      Pods_List = (\<lambda>namespace. Inr [])\<rparr>"

definition cluster1 :: restConfig where
  "cluster1 = \<lparr>config = brokenConfig, clusterName = ''cluster1''\<rparr>"

definition cluster2 :: restConfig where
  "cluster2 = \<lparr>config = healthyConfig, clusterName = ''cluster2''\<rparr>"

text \<open>A cluster that lists \<open>east\<close> and \<open>north\<close>; a subnet of \<open>north\<close> does not parse.\<close>

definition northConfig :: Config where
  "northConfig =
     \<lparr>kubernetesClientError = None, submarinerClientError = None,
      getSubmarinerResource = Some (submarinerOf ''north''),
      Endpoints_List = (\<lambda>namespace. Inr [east, north]),
      Deployments_Get = (\<lambda>namespace name. Inl (StatusError NotFound)),
      DaemonSets_Get = (\<lambda>namespace name.
         Inr \<lparr>Status_CurrentNumberScheduled = 1, Status_DesiredNumberScheduled = 1\<rparr>),
      Pods_List = (\<lambda>namespace. Inr [])\<rparr>"

definition cluster3 :: restConfig where
  "cluster3 = \<lparr>config = northConfig, clusterName = ''cluster3''\<rparr>"

text \<open>A cluster that lists one endpoint only, \<open>eastThird\<close>, whose subnet does not parse.\<close>

definition loneConfig :: Config where
  "loneConfig =
     \<lparr>kubernetesClientError = None, submarinerClientError = None,
      getSubmarinerResource = Some (submarinerOf ''east''),
      Endpoints_List = (\<lambda>namespace. Inr [eastThird]),
      Deployments_Get = (\<lambda>namespace name. Inl (StatusError NotFound)),
      DaemonSets_Get = (\<lambda>namespace name.
         Inr \<lparr>Status_CurrentNumberScheduled = 1, Status_DesiredNumberScheduled = 1\<rparr>),
      Pods_List = (\<lambda>namespace. Inr [])\<rparr>"

definition cluster4 :: restConfig where
  "cluster4 = \<lparr>config = loneConfig, clusterName = ''cluster4''\<rparr>"

section \<open>The registry: properties\<close>

subsection \<open>The merge\<close>

lemma mergeLoop_fst:
  "fst (mergeLoop n cs ex) =
     map (\<lambda>v. if ClusterID v = ClusterID n then v\<lparr>GlobalCidr := GlobalCidr n\<rparr> else v) cs"
  by (induction cs arbitrary: ex) (simp_all add: case_prod_beta)

lemma mergeLoop_snd:
  "snd (mergeLoop n cs ex) = (ex \<or> ClusterID n \<in> ClusterID ` set cs)"
  by (induction cs arbitrary: ex) (auto simp add: case_prod_beta)

lemma map_unchanged:
  "ClusterID n \<notin> ClusterID ` set cs \<Longrightarrow>
   map (\<lambda>v. if ClusterID v = ClusterID n then v\<lparr>GlobalCidr := g\<rparr> else v) cs = cs"
  by (induction cs) auto

lemma upsert_eq:
  "upsert cs n =
     (if ClusterID n \<in> ClusterID ` set cs
      then map (\<lambda>v. if ClusterID v = ClusterID n then v\<lparr>GlobalCidr := GlobalCidr n\<rparr> else v) cs
      else cs @ [\<lparr>ClusterID = ClusterID n, GlobalCidr = GlobalCidr n\<rparr>])"
  by (simp add: upsert_def case_prod_beta mergeLoop_fst mergeLoop_snd map_unchanged)

lemma map_ids_replaced:
  "map ClusterID (map (\<lambda>v. if ClusterID v = ClusterID n then v\<lparr>GlobalCidr := g\<rparr> else v) cs)
     = map ClusterID cs"
  by (induction cs) simp_all

lemma upsert_ids:
  "map ClusterID (upsert cs n) =
     (if ClusterID n \<in> ClusterID ` set cs then map ClusterID cs
      else map ClusterID cs @ [ClusterID n])"
  by (simp add: upsert_eq map_ids_replaced)

text \<open>
  C3. The merge leaves every entry with another cluster ID as it is, at its position;
  an entry with the given cluster ID has its CIDR list replaced at its position, and the
  list keeps its length; when no entry has the given cluster ID, the new entry is
  appended at the end.
\<close>

theorem upsert_placement:
  "(\<forall>i < length cs. ClusterID (cs ! i) \<noteq> ClusterID n \<longrightarrow> upsert cs n ! i = cs ! i) \<and>
   (\<forall>i < length cs. ClusterID (cs ! i) = ClusterID n \<longrightarrow>
        upsert cs n ! i = (cs ! i)\<lparr>GlobalCidr := GlobalCidr n\<rparr>) \<and>
   ((\<exists>v \<in> set cs. ClusterID v = ClusterID n) \<longrightarrow> length (upsert cs n) = length cs) \<and>
   ((\<forall>v \<in> set cs. ClusterID v \<noteq> ClusterID n) \<longrightarrow>
        upsert cs n = cs @ [\<lparr>ClusterID = ClusterID n, GlobalCidr = GlobalCidr n\<rparr>])"
proof (cases "ClusterID n \<in> ClusterID ` set cs")
  case True
  then have ex: "\<exists>v \<in> set cs. ClusterID v = ClusterID n" by (metis imageE)
  have eq: "upsert cs n =
      map (\<lambda>v. if ClusterID v = ClusterID n then v\<lparr>GlobalCidr := GlobalCidr n\<rparr> else v) cs"
    using True by (simp add: upsert_eq)
  show ?thesis unfolding eq using ex by simp
next
  case False
  then have nex: "\<forall>v \<in> set cs. ClusterID v \<noteq> ClusterID n" by (metis image_eqI)
  have eq: "upsert cs n = cs @ [\<lparr>ClusterID = ClusterID n, GlobalCidr = GlobalCidr n\<rparr>]"
    using False by (simp add: upsert_eq)
  show ?thesis unfolding eq using nex by (simp add: nth_append)
qed

theorem upsert_placement_witness:
  "upsert [allocationA, allocationB] allocationC = [allocationA, allocationB, allocationC] \<and>
   upsert [allocationA, allocationB] allocationB' ! 0 = allocationA \<and>
   upsert [allocationA, allocationB] allocationB' ! 1 = allocationB' \<and>
   length (upsert [allocationA, allocationB] allocationB') = 2"
proof -
  let ?cs = "[allocationA, allocationB]"
  note new = upsert_placement [of ?cs allocationC]
  note old = upsert_placement [of ?cs allocationB']
  have absent: "\<forall>v \<in> set ?cs. ClusterID v \<noteq> ClusterID allocationC"
    by (simp add: allocationA_def allocationB_def allocationC_def)
  have present: "\<exists>v \<in> set ?cs. ClusterID v = ClusterID allocationB'"
    by (simp add: allocationB_def allocationB'_def)
  have other: "0 < length ?cs \<and> ClusterID (?cs ! 0) \<noteq> ClusterID allocationB'"
    by (simp add: allocationA_def allocationB'_def)
  have same: "1 < length ?cs \<and> ClusterID (?cs ! 1) = ClusterID allocationB'"
    by (simp add: allocationB_def allocationB'_def)
  have "upsert ?cs allocationC = ?cs @ [\<lparr>ClusterID = ClusterID allocationC, GlobalCidr = GlobalCidr allocationC\<rparr>]"
    using new absent by blast
  then have a: "upsert ?cs allocationC = [allocationA, allocationB, allocationC]"
    by (simp add: allocationC_def)
  have b: "upsert ?cs allocationB' ! 0 = ?cs ! 0"
    using old other by blast
  have "upsert ?cs allocationB' ! 1 = (?cs ! 1)\<lparr>GlobalCidr := GlobalCidr allocationB'\<rparr>"
    using old same by blast
  then have c: "upsert ?cs allocationB' ! 1 = allocationB'"
    by (simp add: allocationB_def allocationB'_def)
  have d: "length (upsert ?cs allocationB') = length ?cs"
    using old present by blast
  show ?thesis using a b c d by simp
qed

text \<open>
  C4. The merge is idempotent: merging the same cluster a second time changes nothing.
\<close>

theorem upsert_idempotent: "upsert (upsert cs n) n = upsert cs n"
proof -
  have mem: "ClusterID n \<in> ClusterID ` set (upsert cs n)"
    using upsert_ids [of cs n] by (metis image_set in_set_conv_decomp)
  have "map (\<lambda>v. if ClusterID v = ClusterID n then v\<lparr>GlobalCidr := GlobalCidr n\<rparr> else v) (upsert cs n)
          = upsert cs n"
    by (simp add: upsert_eq map_unchanged)
  then show ?thesis using mem by (simp add: upsert_eq [of "upsert cs n" n])
qed

text \<open>
  C5. When no two entries of the list share a cluster ID, no two entries of the merged
  list do.
\<close>

theorem upsert_distinct:
  "distinct (map ClusterID cs) \<Longrightarrow> distinct (map ClusterID (upsert cs n))"
  by (simp add: upsert_ids)

theorem upsert_distinct_witness:
  "distinct (map ClusterID [allocationA, allocationB]) \<and>
   distinct (map ClusterID (upsert [allocationA, allocationB] allocationC)) \<and>
   distinct (map ClusterID (upsert [allocationA, allocationB] allocationB'))"
proof -
  have d: "distinct (map ClusterID [allocationA, allocationB])"
    by (simp add: allocationA_def allocationB_def)
  show ?thesis
    using d upsert_distinct [OF d, of allocationC] upsert_distinct [OF d, of allocationB']
    by simp
qed

text \<open>
  What \<^verbatim>\<open>UpdateGlobalnetConfigMap\<close> stores: when the \<^verbatim>\<open>clusterinfo\<close> text decodes, the
  merged list encodes and the record exists, the stored record holds the encoding of the
  merged list.
\<close>

lemma UpdateGlobalnetConfigMap_stores_upsert:
  assumes "Data configMap ClusterInfoKey = Some text"
    and "Unmarshal text = Inr clusterInfo"
    and "MarshalIndent (upsert clusterInfo newCluster) = Inr data"
    and "requestFailure c = None"
    and "configMaps c (namespace, Name configMap) \<noteq> None"
  shows "\<exists>c'. UpdateGlobalnetConfigMap Unmarshal MarshalIndent c namespace configMap newCluster
            = (None, c') \<and>
          (\<exists>cm. configMaps c' (namespace, Name configMap) = Some cm \<and>
                Data cm ClusterInfoKey = Some data)"
  using assms
  by (auto simp add: UpdateGlobalnetConfigMap_def Update_def split: option.splits)

subsection \<open>The initial record\<close>

lemma decimal_digits: "decimal n \<noteq> [] \<and> set (decimal n) \<subseteq> set ''0123456789''"
proof (induction n rule: decimal.induct)
  case (1 n)
  have d: "\<And>k. k < 10 \<Longrightarrow> ''0123456789'' ! k \<in> set ''0123456789''"
    by (rule nth_mem) simp
  show ?case
  proof (cases "n < 10")
    case True
    then show ?thesis using d [of n] by (subst decimal.simps, subst (2) decimal.simps) simp
  next
    case False
    have m: "n mod 10 < 10" by simp
    from False 1 d [OF m] show ?thesis
      by (subst decimal.simps, subst (2) decimal.simps) simp
  qed
qed

lemma digitValue_nth: "k < 10 \<Longrightarrow> digitValue (''0123456789'' ! k) = k"
proof -
  assume "k < 10"
  then have "k \<in> {0,1,2,3,4,5,6,7,8,9}" by auto
  then show ?thesis by (auto simp: digitValue_def)
qed

lemma decimal_value: "decimalValue (decimal n) = n"
  unfolding decimalValue_def
proof (induction n rule: decimal.induct)
  case (1 n)
  show ?case
  proof (cases "n < 10")
    case True
    then show ?thesis by (subst decimal.simps) (simp add: digitValue_nth)
  next
    case False
    with 1 show ?thesis by (subst decimal.simps) (simp add: digitValue_nth)
  qed
qed

text \<open>
  C9. Whenever the range is marshalled (to \<open>q\<close>), \<^verbatim>\<open>NewGlobalnetConfigMap\<close> gives a record
  of the fixed name in the given namespace; its data hold \<^verbatim>\<open>globalnetEnabled\<close> as
  \<^verbatim>\<open>"true"\<close> or \<^verbatim>\<open>"false"\<close> and \<^verbatim>\<open>clusterinfo\<close> as \<^verbatim>\<open>"[]"\<close>; \<^verbatim>\<open>globalnetCidrRange\<close> (the
  marshalled range) and \<^verbatim>\<open>globalnetClusterSize\<close> (the decimal digits of the size) are
  there exactly when globalnet is enabled, and there is no other key.
\<close>

theorem NewGlobalnetConfigMap_data:
  assumes "Marshal r = Inr q"
  shows "\<exists>cm. NewGlobalnetConfigMap Marshal en r sz ns = Inr cm \<and>
      Name cm = ''submariner-globalnet-info'' \<and> Namespace cm = ns \<and>
      Data cm ''globalnetEnabled'' = Some (if en then ''true'' else ''false'') \<and>
      Data cm ''clusterinfo'' = Some ''[]'' \<and>
      Data cm ''globalnetCidrRange'' = (if en then Some q else None) \<and>
      Data cm ''globalnetClusterSize'' = (if en then Some (Sprint sz) else None) \<and>
      dom (Data cm) =
        (if en then {''globalnetEnabled'', ''clusterinfo'', ''globalnetCidrRange'',
                     ''globalnetClusterSize''}
         else {''globalnetEnabled'', ''clusterinfo''}) \<and>
      Sprint sz \<noteq> [] \<and> set (Sprint sz) \<subseteq> set ''0123456789'' \<and>
      decimalValue (Sprint sz) = unat sz"
  using assms decimal_digits [of "unat sz"] decimal_value [of "unat sz"]
  by (auto simp add: NewGlobalnetConfigMap_def GlobalCIDRConfigMapName_def GlobalnetStatusKey_def
        ClusterInfoKey_def GlobalnetCidrRange_def GlobalnetClusterSize_def Sprint_def)

theorem NewGlobalnetConfigMap_data_witness:
  "quoteMarshal ''169.254.0.0/16'' = Inr (CHR 0x22 # ''169.254.0.0/16'' @ [CHR 0x22]) \<and>
   (\<exists>cm. NewGlobalnetConfigMap quoteMarshal True ''169.254.0.0/16'' 8192 ''submariner-k8s-broker''
            = Inr cm \<and>
      Name cm = ''submariner-globalnet-info'' \<and>
      Data cm ''globalnetEnabled'' = Some ''true'' \<and>
      Data cm ''clusterinfo'' = Some ''[]'' \<and>
      Data cm ''globalnetCidrRange'' = Some (CHR 0x22 # ''169.254.0.0/16'' @ [CHR 0x22]) \<and>
      Data cm ''globalnetClusterSize'' = Some (Sprint 8192)) \<and>
   (\<exists>cm. NewGlobalnetConfigMap quoteMarshal False ''169.254.0.0/16'' 8192 ''submariner-k8s-broker''
            = Inr cm \<and>
      Data cm ''globalnetEnabled'' = Some ''false'' \<and>
      Data cm ''clusterinfo'' = Some ''[]'' \<and>
      Data cm ''globalnetCidrRange'' = None \<and>
      Data cm ''globalnetClusterSize'' = None)"
proof -
  have m: "quoteMarshal ''169.254.0.0/16'' = Inr (CHR 0x22 # ''169.254.0.0/16'' @ [CHR 0x22])"
    by (simp add: quoteMarshal_def)
  from NewGlobalnetConfigMap_data [where Marshal = quoteMarshal and r = "''169.254.0.0/16''"
      and q = "CHR 0x22 # ''169.254.0.0/16'' @ [CHR 0x22]" and sz = 8192
      and ns = "''submariner-k8s-broker''" and en = True, OF m]
  have on: "\<exists>cm. NewGlobalnetConfigMap quoteMarshal True ''169.254.0.0/16'' 8192 ''submariner-k8s-broker''
            = Inr cm \<and>
      Name cm = ''submariner-globalnet-info'' \<and>
      Data cm ''globalnetEnabled'' = Some ''true'' \<and>
      Data cm ''clusterinfo'' = Some ''[]'' \<and>
      Data cm ''globalnetCidrRange'' = Some (CHR 0x22 # ''169.254.0.0/16'' @ [CHR 0x22]) \<and>
      Data cm ''globalnetClusterSize'' = Some (Sprint 8192)"
    by (elim exE conjE, intro exI conjI) simp_all
  from NewGlobalnetConfigMap_data [where Marshal = quoteMarshal and r = "''169.254.0.0/16''"
      and q = "CHR 0x22 # ''169.254.0.0/16'' @ [CHR 0x22]" and sz = 8192
      and ns = "''submariner-k8s-broker''" and en = False, OF m]
  have off: "\<exists>cm. NewGlobalnetConfigMap quoteMarshal False ''169.254.0.0/16'' 8192 ''submariner-k8s-broker''
            = Inr cm \<and>
      Data cm ''globalnetEnabled'' = Some ''false'' \<and>
      Data cm ''clusterinfo'' = Some ''[]'' \<and>
      Data cm ''globalnetCidrRange'' = None \<and>
      Data cm ''globalnetClusterSize'' = None"
    by (elim exE conjE, intro exI conjI) simp_all
  from m on off show ?thesis by (intro conjI)
qed

text \<open>
  C6. With a client and a marshalled range: when a record of the fixed name is already
  stored in the namespace, \<^verbatim>\<open>CreateGlobalnetConfigMap\<close> returns \<^verbatim>\<open>nil\<close> and the cluster is
  as before; when the requests go through, a call returns \<^verbatim>\<open>nil\<close> and a second call
  returns \<^verbatim>\<open>nil\<close> and changes nothing; an error of \<^verbatim>\<open>Create\<close> that is not "already
  exists" is returned as it is.
\<close>

theorem CreateGlobalnetConfigMap_idempotent:
  assumes "clientsetFailure c = None" and "Marshal r = Inr q"
  shows "(requestFailure c = None \<and> configMaps c (ns, GlobalCIDRConfigMapName) \<noteq> None \<longrightarrow>
            CreateGlobalnetConfigMap Marshal c en r sz ns = (None, c)) \<and>
         (requestFailure c = None \<longrightarrow>
            fst (CreateGlobalnetConfigMap Marshal c en r sz ns) = None \<and>
            CreateGlobalnetConfigMap Marshal
                (snd (CreateGlobalnetConfigMap Marshal c en r sz ns)) en r sz ns
              = (None, snd (CreateGlobalnetConfigMap Marshal c en r sz ns))) \<and>
         (\<forall>cm err c'. NewGlobalnetConfigMap Marshal en r sz ns = Inr cm \<and>
               Create c ns cm = (Inl err, c') \<and> \<not> IsAlreadyExists err \<longrightarrow>
            CreateGlobalnetConfigMap Marshal c en r sz ns = (Some err, c')) \<and>
         (\<forall>e. requestFailure c = Some e \<longrightarrow>
            CreateGlobalnetConfigMap Marshal c en r sz ns = (Some (StatusError (Other e)), c))"
  using assms
  by (auto simp add: CreateGlobalnetConfigMap_def NewForConfig_def NewGlobalnetConfigMap_def
        Create_def split: option.splits)

theorem CreateGlobalnetConfigMap_idempotent_witness:
  "CreateGlobalnetConfigMap quoteMarshal populatedBroker True ''169.254.0.0/16'' 8192
       ''submariner-k8s-broker'' = (None, populatedBroker) \<and>
   fst (CreateGlobalnetConfigMap quoteMarshal emptyBroker True ''169.254.0.0/16'' 8192
       ''submariner-k8s-broker'') = None \<and>
   CreateGlobalnetConfigMap quoteMarshal
       (snd (CreateGlobalnetConfigMap quoteMarshal emptyBroker True ''169.254.0.0/16'' 8192
          ''submariner-k8s-broker'')) True ''169.254.0.0/16'' 8192 ''submariner-k8s-broker''
     = (None, snd (CreateGlobalnetConfigMap quoteMarshal emptyBroker True ''169.254.0.0/16'' 8192
          ''submariner-k8s-broker'')) \<and>
   CreateGlobalnetConfigMap quoteMarshal unreachableBroker True ''169.254.0.0/16'' 8192
       ''submariner-k8s-broker''
     = (Some (StatusError (Other ''connection refused'')), unreachableBroker)"
proof -
  have m: "quoteMarshal ''169.254.0.0/16'' = Inr (CHR 0x22 # ''169.254.0.0/16'' @ [CHR 0x22])"
    by (simp add: quoteMarshal_def)
  have p: "clientsetFailure populatedBroker = None" by (simp add: populatedBroker_def)
  have e: "clientsetFailure emptyBroker = None" by (simp add: emptyBroker_def)
  have u: "clientsetFailure unreachableBroker = None" by (simp add: unreachableBroker_def)
  have p': "requestFailure populatedBroker = None \<and>
      configMaps populatedBroker (''submariner-k8s-broker'', GlobalCIDRConfigMapName) \<noteq> None"
    by (simp add: populatedBroker_def)
  have e': "requestFailure emptyBroker = None" by (simp add: emptyBroker_def)
  have u': "requestFailure unreachableBroker = Some ''connection refused''"
    by (simp add: unreachableBroker_def)
  note a = CreateGlobalnetConfigMap_idempotent [where Marshal = quoteMarshal
      and r = "''169.254.0.0/16''" and q = "CHR 0x22 # ''169.254.0.0/16'' @ [CHR 0x22]"
      and sz = 8192 and ns = "''submariner-k8s-broker''" and en = True and c = populatedBroker, OF p m,
      THEN conjunct1, THEN mp, OF p']
  note b = CreateGlobalnetConfigMap_idempotent [where Marshal = quoteMarshal
      and r = "''169.254.0.0/16''" and q = "CHR 0x22 # ''169.254.0.0/16'' @ [CHR 0x22]"
      and sz = 8192 and ns = "''submariner-k8s-broker''" and en = True and c = emptyBroker, OF e m,
      THEN conjunct2, THEN conjunct1, THEN mp, OF e']
  note c = CreateGlobalnetConfigMap_idempotent [where Marshal = quoteMarshal
      and r = "''169.254.0.0/16''" and q = "CHR 0x22 # ''169.254.0.0/16'' @ [CHR 0x22]"
      and sz = 8192 and ns = "''submariner-k8s-broker''" and en = True and c = unreachableBroker, OF u m,
      THEN conjunct2, THEN conjunct2, THEN conjunct2, THEN spec, THEN mp, OF u']
  from a b c show ?thesis by (intro conjI) simp_all
qed


section \<open>CIDR intersection: properties\<close>

lemma CIDRMask_absorb:
  "ones1 \<le> ones2 \<Longrightarrow> (CIDRMask ones2 :: 'a::len word) AND CIDRMask ones1 = CIDRMask ones1"
  unfolding CIDRMask_def
  by (rule bit_word_eqI) (auto simp add: bit_simps)

lemma masked_common:
  fixes a n1 n2 :: "'a::len word"
  assumes "ones1 \<le> ones2"
    and "a AND CIDRMask ones1 = n1 AND CIDRMask ones1"
    and "a AND CIDRMask ones2 = n2 AND CIDRMask ones2"
  shows "(n2 AND CIDRMask ones2) AND CIDRMask ones1 = n1 AND CIDRMask ones1"
proof -
  have "(n2 AND CIDRMask ones2) AND CIDRMask ones1 = (a AND CIDRMask ones2) AND CIDRMask ones1"
    using assms(3) by simp
  also have "\<dots> = a AND (CIDRMask ones2 AND CIDRMask ones1)"
    by (simp add: and.assoc)
  also have "\<dots> = a AND CIDRMask ones1"
    using assms(1) by (simp add: CIDRMask_absorb)
  finally show ?thesis using assms(2) by simp
qed

lemma Contains_networkAddress: "Contains n (networkAddress n)"
  by (cases n rule: networkAddress.cases) (simp_all add: and.assoc)

lemma shared_address_intersects:
  assumes "Contains p a" and "Contains q a"
  shows "intersects p q"
proof -
  obtain ip1 ones1 where p: "p = IPNet ip1 ones1" by (cases p)
  obtain ip2 ones2 where q: "q = IPNet ip2 ones2" by (cases q)
  show ?thesis
  proof (cases a)
    case (IPv4 x)
    with assms p q obtain n1 n2 where n: "ip1 = IPv4 n1" "ip2 = IPv4 n2"
      by (cases ip1; cases ip2) simp_all
    from assms have c: "x AND CIDRMask ones1 = n1 AND CIDRMask ones1"
       "x AND CIDRMask ones2 = n2 AND CIDRMask ones2"
      by (simp_all add: p q n IPv4)
    show ?thesis
    proof (cases "ones1 \<le> ones2")
      case True
      from masked_common [OF True c] show ?thesis
        by (simp add: intersects_def p q n)
    next
      case False
      then have "ones2 \<le> ones1" by simp
      from masked_common [OF this c(2) c(1)] show ?thesis
        by (simp add: intersects_def p q n)
    qed
  next
    case (IPv6 x)
    with assms p q obtain n1 n2 where n: "ip1 = IPv6 n1" "ip2 = IPv6 n2"
      by (cases ip1; cases ip2) simp_all
    from assms have c: "x AND CIDRMask ones1 = n1 AND CIDRMask ones1"
       "x AND CIDRMask ones2 = n2 AND CIDRMask ones2"
      by (simp_all add: p q n IPv6)
    show ?thesis
    proof (cases "ones1 \<le> ones2")
      case True
      from masked_common [OF True c] show ?thesis
        by (simp add: intersects_def p q n)
    next
      case False
      then have "ones2 \<le> ones1" by simp
      from masked_common [OF this c(2) c(1)] show ?thesis
        by (simp add: intersects_def p q n)
    qed
  qed
qed

lemma intersects_iff: "intersects p q \<longleftrightarrow> (\<exists>a. Contains p a \<and> Contains q a)"
proof
  assume "intersects p q"
  then show "\<exists>a. Contains p a \<and> Contains q a"
    unfolding intersects_def using Contains_networkAddress by blast
next
  assume "\<exists>a. Contains p a \<and> Contains q a"
  then show "intersects p q" using shared_address_intersects by blast
qed

lemma overlapsAny_parsed:
  assumes "\<forall>v \<in> set cidrList. \<exists>n. ParseCIDR v = Inr n"
  shows "overlapsAny ParseCIDR cidrList newNet =
           Inr (\<exists>v \<in> set cidrList. intersects (projr (ParseCIDR v)) newNet)"
  using assms by (induction cidrList) auto

lemma IsOverlapping_parsed:
  assumes "\<forall>v \<in> set cidrList. \<exists>n. ParseCIDR v = Inr n" and "\<exists>n. ParseCIDR cidr = Inr n"
  shows "IsOverlapping ParseCIDR cidrList cidr =
           Inr (\<exists>v \<in> set cidrList. intersects (projr (ParseCIDR v)) (projr (ParseCIDR cidr)))"
  using assms by (auto simp add: IsOverlapping_def overlapsAny_parsed)

lemma intersects_commute: "intersects a b = intersects b a"
  by (auto simp add: intersects_def)

text \<open>
  The range of a prefix as an interval: the addresses from the network address on,
  two to the power of the number of host bits of them.
\<close>

lemma and_not_mask_push_drop:
  "(a :: 'a::len word) AND NOT (mask k) = push_bit k (drop_bit k a)"
  by (rule bit_word_eqI) (auto simp add: bit_simps)

lemma unat_and_not_mask:
  "unat ((a :: 'a::len word) AND NOT (mask k)) = 2 ^ k * (unat a div 2 ^ k)"
proof -
  have le: "2 ^ k * (unat a div 2 ^ k) \<le> unat a" by simp
  have "unat a < 2 ^ LENGTH('a)" by (rule unsigned_less)
  with le have lt: "2 ^ k * (unat a div 2 ^ k) < 2 ^ LENGTH('a)" by (rule le_less_trans)
  have "unat (a AND NOT (mask k)) = take_bit LENGTH('a) (push_bit k (drop_bit k (unat a)))"
    by (simp only: and_not_mask_push_drop unsigned_push_bit_eq unat_drop_bit_eq)
  also have "\<dots> = take_bit LENGTH('a) (2 ^ k * (unat a div 2 ^ k))"
    by (simp add: push_bit_eq_mult drop_bit_eq_div mult.commute)
  also have "\<dots> = 2 ^ k * (unat a div 2 ^ k)"
    using lt by (rule take_bit_nat_eq_self)
  finally show ?thesis .
qed

lemma div_eq_iff_interval:
  fixes A q P :: nat
  assumes "0 < P"
  shows "A div P = q \<longleftrightarrow> P * q \<le> A \<and> A < P * q + P"
proof
  assume "A div P = q"
  then have q: "q = A div P" by simp
  have "P * (A div P) \<le> A" by simp
  moreover have "A < P * (A div P) + P"
    using assms dividend_less_times_div [of P A] by (simp add: mult.commute)
  ultimately show "P * q \<le> A \<and> A < P * q + P" unfolding q by blast
next
  assume "P * q \<le> A \<and> A < P * q + P"
  then show "A div P = q" by (intro div_nat_eqI) simp_all
qed

lemma masked_eq_iff_interval:
  fixes a n :: "'a::len word"
  shows "(a AND CIDRMask ones = n AND CIDRMask ones) \<longleftrightarrow>
         unat (n AND CIDRMask ones) \<le> unat a \<and>
         unat a < unat (n AND CIDRMask ones) + 2 ^ (LENGTH('a) - ones)"
proof -
  let ?k = "LENGTH('a) - ones"
  let ?P = "(2::nat) ^ ?k"
  have P: "0 < ?P" by simp
  have "(a AND CIDRMask ones = n AND CIDRMask ones) \<longleftrightarrow>
        unat (a AND NOT (mask ?k)) = unat (n AND NOT (mask ?k))"
    unfolding CIDRMask_def by (simp add: word_unat_eq_iff)
  also have "\<dots> \<longleftrightarrow> unat a div ?P = unat n div ?P"
    by (simp add: unat_and_not_mask)
  also have "\<dots> \<longleftrightarrow> ?P * (unat n div ?P) \<le> unat a \<and> unat a < ?P * (unat n div ?P) + ?P"
    by (rule div_eq_iff_interval [OF P])
  also have "\<dots> \<longleftrightarrow> unat (n AND CIDRMask ones) \<le> unat a \<and>
         unat a < unat (n AND CIDRMask ones) + ?P"
    unfolding CIDRMask_def by (simp only: unat_and_not_mask)
  finally show ?thesis .
qed

lemma Contains_range:
  "Contains (IPNet (IPv4 n) ones) (IPv4 a) \<longleftrightarrow>
     unat (n AND CIDRMask ones) \<le> unat a \<and> unat a < unat (n AND CIDRMask ones) + 2 ^ (32 - ones)"
  "Contains (IPNet (IPv6 m) ones) (IPv6 b) \<longleftrightarrow>
     unat (m AND CIDRMask ones) \<le> unat b \<and> unat b < unat (m AND CIDRMask ones) + 2 ^ (128 - ones)"
  using masked_eq_iff_interval [of a ones n] masked_eq_iff_interval [of b ones m] by simp_all

text \<open>
  C8. Two prefixes pass the intersection test exactly when their ranges share an
  address, whichever prefix is the longer, for IPv4 and for IPv6: 10.0.0.0/24 and
  10.1.0.0/24 do not intersect, 10.0.0.0/16 and 10.0.1.0/24 do. For a list and a subnet
  that all parse, \<open>IsOverlapping\<close> answers whether the subnet shares an address with a
  prefix of the list. The range of a prefix is the interval of addresses that starts at
  its network address and has two to the power of the number of host bits elements.
\<close>

theorem intersects_iff_shared_address:
  "(intersects p q \<longleftrightarrow> (\<exists>a. Contains p a \<and> Contains q a)) \<and>
   \<not> intersects (IPNet (IPv4 0x0A000000) 24) (IPNet (IPv4 0x0A010000) 24) \<and>
   intersects (IPNet (IPv4 0x0A000000) 16) (IPNet (IPv4 0x0A000100) 24) \<and>
   ((\<forall>v \<in> set cidrList. \<exists>n. ParseCIDR v = Inr n) \<and> ParseCIDR cidr = Inr q \<longrightarrow>
      IsOverlapping ParseCIDR cidrList cidr =
        Inr (\<exists>v \<in> set cidrList. \<exists>a. Contains (projr (ParseCIDR v)) a \<and> Contains q a)) \<and>
   (Contains (IPNet (IPv4 n4) ones) (IPv4 a4) \<longleftrightarrow>
      unat (n4 AND CIDRMask ones) \<le> unat a4 \<and>
      unat a4 < unat (n4 AND CIDRMask ones) + 2 ^ (32 - ones)) \<and>
   (Contains (IPNet (IPv6 n6) ones) (IPv6 a6) \<longleftrightarrow>
      unat (n6 AND CIDRMask ones) \<le> unat a6 \<and>
      unat a6 < unat (n6 AND CIDRMask ones) + 2 ^ (128 - ones))"
proof -
  have ex1: "\<not> intersects (IPNet (IPv4 0x0A000000) 24) (IPNet (IPv4 0x0A010000) 24)"
    by (simp add: intersects_def CIDRMask_def mask_eq_exp_minus_1)
  have ex2: "intersects (IPNet (IPv4 0x0A000000) 16) (IPNet (IPv4 0x0A000100) 24)"
    by (simp add: intersects_def CIDRMask_def mask_eq_exp_minus_1)
  have test: "(\<forall>v \<in> set cidrList. \<exists>n. ParseCIDR v = Inr n) \<and> ParseCIDR cidr = Inr q \<longrightarrow>
      IsOverlapping ParseCIDR cidrList cidr =
        Inr (\<exists>v \<in> set cidrList. \<exists>a. Contains (projr (ParseCIDR v)) a \<and> Contains q a)"
  proof
    assume h: "(\<forall>v \<in> set cidrList. \<exists>n. ParseCIDR v = Inr n) \<and> ParseCIDR cidr = Inr q"
    then have "IsOverlapping ParseCIDR cidrList cidr =
        Inr (\<exists>v \<in> set cidrList. intersects (projr (ParseCIDR v)) (projr (ParseCIDR cidr)))"
      by (intro IsOverlapping_parsed) auto
    with h show "IsOverlapping ParseCIDR cidrList cidr =
        Inr (\<exists>v \<in> set cidrList. \<exists>a. Contains (projr (ParseCIDR v)) a \<and> Contains q a)"
      by (simp add: intersects_iff)
  qed
  from intersects_iff [of p q] ex1 ex2 test Contains_range(1) [of n4 ones a4]
    Contains_range(2) [of n6 ones a6]
  show ?thesis by (intro conjI)
qed

theorem intersects_iff_shared_address_witness:
  "IsOverlapping parseKnown [''10.0.0.0/24''] ''10.1.0.0/24'' = Inr False \<and>
   IsOverlapping parseKnown [''10.0.0.0/16''] ''10.0.1.0/24'' = Inr True \<and>
   IsOverlapping parseKnown [''10.0.1.0/24''] ''10.0.0.0/16'' = Inr True \<and>
   IsOverlapping parseKnown [''2001:db8::/32''] ''2001:db8:1::/48'' = Inr True \<and>
   IsOverlapping parseKnown [''2001:db8:2::/48''] ''2001:db8:1::/48'' = Inr False \<and>
   IsOverlapping parseKnown [''2001:db8::/32''] ''10.0.0.0/16'' = Inr False \<and>
   (\<exists>a. Contains (IPNet (IPv4 0x0A000000) 16) a \<and> Contains (IPNet (IPv4 0x0A000100) 24) a)"
proof -
  have q: "parseKnown ''10.0.1.0/24'' = Inr (IPNet (IPv4 0x0A000100) 24)"
    by (simp add: parseKnown_def knownPrefixes_def)
  have l: "\<forall>v \<in> set [''10.0.0.0/16'']. \<exists>n. parseKnown v = Inr n"
    by (simp add: parseKnown_def knownPrefixes_def)
  note t = intersects_iff_shared_address [of "IPNet (IPv4 0x0A000000) 16" "IPNet (IPv4 0x0A000100) 24"
      "[''10.0.0.0/16'']" parseKnown "''10.0.1.0/24''"]
  from t [THEN conjunct2, THEN conjunct2, THEN conjunct2, THEN conjunct1, THEN mp,
      OF conjI [OF l q]]
  have b: "IsOverlapping parseKnown [''10.0.0.0/16''] ''10.0.1.0/24'' =
      Inr (\<exists>v \<in> set [''10.0.0.0/16'']. \<exists>a. Contains (projr (parseKnown v)) a \<and>
              Contains (IPNet (IPv4 0x0A000100) 24) a)" .
  have b': "IsOverlapping parseKnown [''10.0.0.0/16''] ''10.0.1.0/24'' = Inr True"
    by (simp add: IsOverlapping_def parseKnown_def knownPrefixes_def
        intersects_def CIDRMask_def mask_eq_exp_minus_1)
  from b b' have e: "\<exists>a. Contains (IPNet (IPv4 0x0A000000) 16) a \<and> Contains (IPNet (IPv4 0x0A000100) 24) a"
    by (simp add: parseKnown_def knownPrefixes_def)
  have rest:
   "IsOverlapping parseKnown [''10.0.0.0/24''] ''10.1.0.0/24'' = Inr False"
   "IsOverlapping parseKnown [''10.0.1.0/24''] ''10.0.0.0/16'' = Inr True"
   "IsOverlapping parseKnown [''2001:db8::/32''] ''2001:db8:1::/48'' = Inr True"
   "IsOverlapping parseKnown [''2001:db8:2::/48''] ''2001:db8:1::/48'' = Inr False"
   "IsOverlapping parseKnown [''2001:db8::/32''] ''10.0.0.0/16'' = Inr False"
    by (simp_all add: IsOverlapping_def parseKnown_def knownPrefixes_def
        intersects_def CIDRMask_def mask_eq_exp_minus_1)
  from rest b' e show ?thesis by (intro conjI)
qed

section \<open>The overlap detector: properties\<close>

subsection \<open>What the loops queue\<close>

lemmas status_defs = Start_def End_def QueueFailureMessage_def QueueSuccessMessage_def
  QueueWarningMessage_def HasFailureMessages_def newStatus_def Let_def

lemma issuesOfSubnet_eq:
  "issuesOfSubnet isOv source dest subnet =
     (case isOv (Spec_Subnets source) subnet of
        Inl err \<Rightarrow> [ErrorParsingCIDR (Spec_ClusterID dest) err]
      | Inr overlap \<Rightarrow>
          if overlap
          then [CIDROverlaps subnet (Spec_ClusterID dest) (Spec_ClusterID source) (Spec_Subnets source)]
          else [])"
  by (simp add: issuesOfSubnet_def QueueFailureMessage_def newStatus_def split: sum.splits)

lemma subnetLoop_append:
  "subnetLoop isOv source dest subnets s =
     s\<lparr>failureQueue := failureQueue s @ concat (map (issuesOfSubnet isOv source dest) subnets)\<rparr>"
proof (induction subnets arbitrary: s)
  case Nil
  show ?case by simp
next
  case (Cons subnet rest)
  show ?case
    by (simp add: Cons.IH issuesOfSubnet_eq QueueFailureMessage_def split: sum.splits)
qed

lemma checkPair_append:
  "checkPair isOv source dest s = s\<lparr>failureQueue := failureQueue s @ issuesOfPair isOv source dest\<rparr>"
  by (simp add: issuesOfPair_def checkPair_def subnetLoop_append QueueFailureMessage_def newStatus_def)

lemma destLoop_append:
  "destLoop isOv source dests s =
     s\<lparr>failureQueue := failureQueue s @ concat (map (issuesOfPair isOv source) dests)\<rparr>"
proof (induction dests arbitrary: s)
  case Nil
  show ?case by simp
next
  case (Cons dest rest)
  show ?case by (simp add: Cons.IH checkPair_append)
qed

lemma sourceLoop_append:
  "sourceLoop isOv items s =
     s\<lparr>failureQueue := failureQueue s @
          concat (map (\<lambda>(source, dest). issuesOfPair isOv source dest) (pairsFrom items))\<rparr>"
proof (induction items arbitrary: s)
  case Nil
  show ?case by simp
next
  case (Cons source rest)
  have "concat (map (\<lambda>(source, dest). issuesOfPair isOv source dest) (map (Pair source) rest))
          = concat (map (issuesOfPair isOv source) rest)"
    by (simp add: comp_def)
  then show ?case by (simp add: Cons.IH destLoop_append)
qed

lemma indexPairs_Suc:
  "indexPairs (Suc n) = map (Pair 0) [1..<Suc n] @ map (\<lambda>(i, j). (Suc i, Suc j)) (indexPairs n)"
proof -
  have a: "[0..<Suc n] = 0 # map Suc [0..<n]"
    by (simp add: upt_conv_Cons map_Suc_upt del: upt_Suc)
  have b: "\<And>i. [Suc (Suc i)..<Suc n] = map Suc [Suc i..<n]"
    by (simp add: map_Suc_upt del: upt_Suc)
  show ?thesis
    unfolding indexPairs_def a
    by (simp add: b map_concat comp_def del: upt_Suc)
qed

lemma pairsFrom_index:
  "pairsFrom xs = map (\<lambda>(i, j). (xs ! i, xs ! j)) (indexPairs (length xs))"
proof (induction xs)
  case Nil
  show ?case by (simp add: indexPairs_def)
next
  case (Cons x xs)
  have "map (Pair x) xs = map (\<lambda>j. (x, (x # xs) ! j)) [1..<Suc (length xs)]"
    by (rule nth_equalityI) (auto simp del: upt_Suc)
  then show ?case
    by (simp add: indexPairs_Suc Cons.IH comp_def case_prod_beta del: upt_Suc)
qed

lemma indexPairs_set: "set (indexPairs n) = {(i, j). i < j \<and> j < n}"
proof -
  have "\<And>a b. a < b \<Longrightarrow> b < n \<Longrightarrow> \<exists>x \<in> {0..<n}. (a, b) \<in> Pair x ` {Suc x..<n}"
  proof -
    fix a b :: nat
    assume "a < b" and "b < n"
    then have "a \<in> {0..<n}" and "(a, b) \<in> Pair a ` {Suc a..<n}" by auto
    then show "\<exists>x \<in> {0..<n}. (a, b) \<in> Pair x ` {Suc x..<n}" by blast
  qed
  then show ?thesis by (auto simp add: indexPairs_def)
qed

lemma indexPairs_distinct: "distinct (indexPairs n)"
proof (induction n)
  case 0
  show ?case by (simp add: indexPairs_def)
next
  case (Suc n)
  have inj: "inj (\<lambda>(i, j). (Suc i, Suc j))" by (auto simp add: inj_on_def)
  have "distinct (map (Pair (0::nat)) [1..<Suc n])"
    by (simp add: distinct_map inj_on_def del: upt_Suc)
  moreover have "distinct (map (\<lambda>(i, j). (Suc i, Suc j)) (indexPairs n))"
    using Suc inj by (simp add: distinct_map inj_on_subset [OF inj])
  moreover have "set (map (Pair (0::nat)) [1..<Suc n]) \<inter>
      set (map (\<lambda>(i, j). (Suc i, Suc j)) (indexPairs n)) = {}"
    by auto
  ultimately show ?case by (simp only: indexPairs_Suc distinct_append)
qed

lemma issuesOfPair_eq:
  "issuesOfPair isOv source dest =
     (if Spec_ClusterID source = Spec_ClusterID dest
      then [MultipleEndpoints (Endpoint_Name source) (Endpoint_Name dest) (Spec_ClusterID source)]
      else concat (map (issuesOfSubnet isOv source dest) (Spec_Subnets dest)))"
  by (simp add: issuesOfPair_def checkPair_def subnetLoop_append QueueFailureMessage_def
        newStatus_def)

lemma issuesOfPair_explicit:
  "issuesOfPair isOv source dest =
     (if Spec_ClusterID source = Spec_ClusterID dest
      then [MultipleEndpoints (Endpoint_Name source) (Endpoint_Name dest) (Spec_ClusterID source)]
      else concat (map (\<lambda>subnet.
             case isOv (Spec_Subnets source) subnet of
               Inl err \<Rightarrow> [ErrorParsingCIDR (Spec_ClusterID dest) err]
             | Inr overlap \<Rightarrow>
                 if overlap
                 then [CIDROverlaps subnet (Spec_ClusterID dest) (Spec_ClusterID source)
                         (Spec_Subnets source)]
                 else []) (Spec_Subnets dest)))"
proof -
  have "issuesOfSubnet isOv source dest = (\<lambda>subnet.
             case isOv (Spec_Subnets source) subnet of
               Inl err \<Rightarrow> [ErrorParsingCIDR (Spec_ClusterID dest) err]
             | Inr overlap \<Rightarrow>
                 if overlap
                 then [CIDROverlaps subnet (Spec_ClusterID dest) (Spec_ClusterID source)
                         (Spec_Subnets source)]
                 else [])"
    by (rule ext) (rule issuesOfSubnet_eq)
  then show ?thesis by (simp only: issuesOfPair_eq)
qed

lemma issuesOf_pairs:
  "issuesOf isOv items =
     concat (map (\<lambda>(i, j). issuesOfPair isOv (items ! i) (items ! j)) (indexPairs (length items)))"
  by (simp add: issuesOf_def sourceLoop_append pairsFrom_index newStatus_def comp_def
        split_def)

lemma sourceLoop_issuesOf:
  "sourceLoop isOv items s = s\<lparr>failureQueue := failureQueue s @ issuesOf isOv items\<rparr>"
proof -
  have "issuesOf isOv items =
      concat (map (\<lambda>(source, dest). issuesOfPair isOv source dest) (pairsFrom items))"
    unfolding issuesOf_def by (subst sourceLoop_append) (simp add: newStatus_def)
  then show ?thesis by (subst sourceLoop_append) simp
qed

lemma indexPairs_split:
  assumes "i < j" and "j < n"
  shows "\<exists>pre post. indexPairs n = pre @ (i, j) # post \<and> (i, j) \<notin> set pre \<and> (i, j) \<notin> set post"
proof -
  have "(i, j) \<in> set (indexPairs n)" using assms by (simp add: indexPairs_set)
  then obtain pre post where sp: "indexPairs n = pre @ (i, j) # post"
    by (meson split_list)
  have "distinct (pre @ (i, j) # post)" using indexPairs_distinct [of n] sp by simp
  then have "(i, j) \<notin> set pre \<and> (i, j) \<notin> set post" by auto
  with sp show ?thesis by blast
qed

lemma Start_fields:
  "status (Start m s) = Some m"
  "failureQueue (Start m s) = (if status s = None then failureQueue s else [])"
  by (simp_all add: Start_def End_def Let_def split: option.splits)

subsection \<open>Runs on the example endpoints\<close>

lemma issues3:
  "issuesOf (IsOverlapping parseKnown) [east, eastSecond, eastThird] =
     [MultipleEndpoints ''east-gw'' ''east-gw-2'' ''east'',
      MultipleEndpoints ''east-gw'' ''east-gw-3'' ''east'',
      MultipleEndpoints ''east-gw-2'' ''east-gw-3'' ''east'']"
  by (simp add: issuesOf_def checkPair_def QueueFailureMessage_def newStatus_def
        east_def eastSecond_def eastThird_def)

lemma issues_ew:
  "issuesOf (IsOverlapping parseKnown) [east, west] =
     [CIDROverlaps ''10.0.1.0/24'' ''west'' ''east'' [''10.0.0.0/16''],
      CIDROverlaps ''10.0.2.0/24'' ''west'' ''east'' [''10.0.0.0/16'']]"
  by (simp add: issuesOf_def checkPair_def QueueFailureMessage_def newStatus_def
        east_def west_def IsOverlapping_def parseKnown_def knownPrefixes_def
        intersects_def CIDRMask_def mask_eq_exp_minus_1)

lemma issues_we:
  "issuesOf (IsOverlapping parseKnown) [west, east] =
     [CIDROverlaps ''10.0.0.0/16'' ''east'' ''west'' [''10.0.1.0/24'', ''10.0.2.0/24'']]"
  by (simp add: issuesOf_def checkPair_def QueueFailureMessage_def newStatus_def
        east_def west_def IsOverlapping_def parseKnown_def knownPrefixes_def
        intersects_def CIDRMask_def mask_eq_exp_minus_1)

lemma issues_en:
  "issuesOf (IsOverlapping parseKnown) [east, north] =
     [ErrorParsingCIDR ''north'' (ParseError ''CIDR address'' ''10.0.1.0/33''),
      CIDROverlaps ''10.0.1.0/24'' ''north'' ''east'' [''10.0.0.0/16'']]"
  by (simp add: issuesOf_def checkPair_def QueueFailureMessage_def newStatus_def
        east_def north_def IsOverlapping_def parseKnown_def knownPrefixes_def
        intersects_def CIDRMask_def mask_eq_exp_minus_1)

lemma parseKnown_subnets:
  "\<exists>n. parseKnown ''10.0.0.0/16'' = Inr n" "\<exists>n. parseKnown ''10.0.1.0/24'' = Inr n"
  "\<exists>n. parseKnown ''10.0.2.0/24'' = Inr n" "\<exists>n. parseKnown ''10.1.0.0/24'' = Inr n"
  by (simp_all add: parseKnown_def knownPrefixes_def)

subsection \<open>Endpoints of one cluster\<close>

text \<open>
  C7. For positions \<open>i < j\<close> whose endpoints have the same cluster ID, the body of the
  loop queues one failure message, made of the two endpoint names and the cluster ID,
  whatever the subnets and whatever the intersection test; in the run over the whole
  list the pair \<open>(i, j)\<close> occurs once, the pairs before it and the pairs after it are all
  evaluated, and what the run queues is added to the failures queued before.
\<close>

theorem duplicate_cluster_issue:
  assumes "i < j" and "j < length items"
    and "Spec_ClusterID (items ! i) = Spec_ClusterID (items ! j)"
  shows "checkPair isOv (items ! i) (items ! j) s =
           QueueFailureMessage (MultipleEndpoints (Endpoint_Name (items ! i))
             (Endpoint_Name (items ! j)) (Spec_ClusterID (items ! i))) s \<and>
         issuesOfPair isOv (items ! i) (items ! j) =
           [MultipleEndpoints (Endpoint_Name (items ! i)) (Endpoint_Name (items ! j))
              (Spec_ClusterID (items ! i))] \<and>
         (\<exists>pre post. indexPairs (length items) = pre @ (i, j) # post \<and>
            (i, j) \<notin> set pre \<and> (i, j) \<notin> set post \<and>
            issuesOf isOv items =
              concat (map (\<lambda>(a, b). issuesOfPair isOv (items ! a) (items ! b)) pre) @
              [MultipleEndpoints (Endpoint_Name (items ! i)) (Endpoint_Name (items ! j))
                 (Spec_ClusterID (items ! i))] @
              concat (map (\<lambda>(a, b). issuesOfPair isOv (items ! a) (items ! b)) post)) \<and>
         failureQueue (sourceLoop isOv items s) = failureQueue s @ issuesOf isOv items"
proof -
  have one: "issuesOfPair isOv (items ! i) (items ! j) =
           [MultipleEndpoints (Endpoint_Name (items ! i)) (Endpoint_Name (items ! j))
              (Spec_ClusterID (items ! i))]"
    using assms(3) by (simp add: issuesOfPair_eq)
  have body: "checkPair isOv (items ! i) (items ! j) s =
           QueueFailureMessage (MultipleEndpoints (Endpoint_Name (items ! i))
             (Endpoint_Name (items ! j)) (Spec_ClusterID (items ! i))) s"
    using assms(3) by (simp add: checkPair_def)
  from indexPairs_split [OF assms(1,2)] obtain pre post where
    sp: "indexPairs (length items) = pre @ (i, j) # post" "(i, j) \<notin> set pre" "(i, j) \<notin> set post"
    by blast
  have "issuesOf isOv items =
              concat (map (\<lambda>(a, b). issuesOfPair isOv (items ! a) (items ! b)) pre) @
              [MultipleEndpoints (Endpoint_Name (items ! i)) (Endpoint_Name (items ! j))
                 (Spec_ClusterID (items ! i))] @
              concat (map (\<lambda>(a, b). issuesOfPair isOv (items ! a) (items ! b)) post)"
    by (simp add: issuesOf_pairs [of isOv items] sp(1) one)
  with sp have run: "\<exists>pre post. indexPairs (length items) = pre @ (i, j) # post \<and>
            (i, j) \<notin> set pre \<and> (i, j) \<notin> set post \<and>
            issuesOf isOv items =
              concat (map (\<lambda>(a, b). issuesOfPair isOv (items ! a) (items ! b)) pre) @
              [MultipleEndpoints (Endpoint_Name (items ! i)) (Endpoint_Name (items ! j))
                 (Spec_ClusterID (items ! i))] @
              concat (map (\<lambda>(a, b). issuesOfPair isOv (items ! a) (items ! b)) post)"
    by blast
  have all: "failureQueue (sourceLoop isOv items s) = failureQueue s @ issuesOf isOv items"
    by (simp add: sourceLoop_issuesOf)
  from body one run all show ?thesis by (intro conjI)
qed

theorem duplicate_cluster_issue_witness:
  "(0::nat) < 2 \<and> 2 < length [east, eastSecond, eastThird] \<and>
   Spec_ClusterID ([east, eastSecond, eastThird] ! 0) = Spec_ClusterID ([east, eastSecond, eastThird] ! 2) \<and>
   issuesOfPair (IsOverlapping parseKnown) east eastThird =
     [MultipleEndpoints ''east-gw'' ''east-gw-3'' ''east''] \<and>
   issuesOf (IsOverlapping parseKnown) [east, eastSecond, eastThird] =
     [MultipleEndpoints ''east-gw'' ''east-gw-2'' ''east'',
      MultipleEndpoints ''east-gw'' ''east-gw-3'' ''east'',
      MultipleEndpoints ''east-gw-2'' ''east-gw-3'' ''east'']"
proof -
  let ?items = "[east, eastSecond, eastThird]"
  have h1: "(0::nat) < 2" by simp
  have h2: "2 < length ?items" by simp
  have h3: "Spec_ClusterID (?items ! 0) = Spec_ClusterID (?items ! 2)"
    by (simp add: east_def eastThird_def)
  note t = duplicate_cluster_issue [of 0 2 ?items "IsOverlapping parseKnown" newStatus, OF h1 h2 h3]
  from t [THEN conjunct2, THEN conjunct1]
  have "issuesOfPair (IsOverlapping parseKnown) (?items ! 0) (?items ! 2) =
      [MultipleEndpoints (Endpoint_Name (?items ! 0)) (Endpoint_Name (?items ! 2))
         (Spec_ClusterID (?items ! 0))]" .
  then have a: "issuesOfPair (IsOverlapping parseKnown) east eastThird =
     [MultipleEndpoints ''east-gw'' ''east-gw-3'' ''east'']"
    by (simp add: east_def eastThird_def)
  from h1 h2 h3 a issues3 show ?thesis by (intro conjI)
qed

subsection \<open>A subnet that does not parse\<close>

lemma error_issue_member:
  assumes "i < j" and "j < length items"
    and "Spec_ClusterID (items ! i) \<noteq> Spec_ClusterID (items ! j)"
    and "k < length (Spec_Subnets (items ! j))"
    and "isOv (Spec_Subnets (items ! i)) (Spec_Subnets (items ! j) ! k) = Inl err"
  shows "ErrorParsingCIDR (Spec_ClusterID (items ! j)) err \<in> set (issuesOf isOv items)"
proof -
  let ?e = "ErrorParsingCIDR (Spec_ClusterID (items ! j)) err"
  have sub: "issuesOfSubnet isOv (items ! i) (items ! j) (Spec_Subnets (items ! j) ! k) = [?e]"
    using assms(5) by (simp add: issuesOfSubnet_eq)
  have pair: "issuesOfPair isOv (items ! i) (items ! j) =
           concat (map (issuesOfSubnet isOv (items ! i) (items ! j)) (Spec_Subnets (items ! j)))"
    using assms(3) by (simp add: issuesOfPair_eq)
  have "Spec_Subnets (items ! j) ! k \<in> set (Spec_Subnets (items ! j))"
    using assms(4) by simp
  with sub have inpair: "?e \<in> set (issuesOfPair isOv (items ! i) (items ! j))"
    unfolding pair by force
  have "(i, j) \<in> set (indexPairs (length items))"
    using assms(1,2) by (simp add: indexPairs_set)
  with inpair show ?thesis
    unfolding issuesOf_pairs [of isOv items] by force
qed

lemma IsOverlapping_unparseable:
  "ParseCIDR cidr = Inl err \<Longrightarrow> IsOverlapping ParseCIDR cidrList cidr = Inl err"
  by (simp add: IsOverlapping_def)

text \<open>
  C10, as amended. When the intersection test gives an error for a subnet of \<^verbatim>\<open>dest\<close>
  against the subnets of \<^verbatim>\<open>source\<close> (two endpoints of different clusters at positions
  \<open>i < j\<close>), the loop queues a failure message with the cluster ID of \<^verbatim>\<open>dest\<close>, the endpoint
  whose subnet is under test, and the error; every subnet of \<^verbatim>\<open>dest\<close> gives its own error or
  overlap issue, or nothing, and every other pair gives its issues all the same; and
  \<^verbatim>\<open>checkOverlappingCIDRs\<close> returns false, without aborting, its report ending with the
  failures of the run. When the subnet of \<^verbatim>\<open>dest\<close> under test is itself the text that does
  not parse, the test gives the error of the parser and the message names the cluster of
  that subnet. A list of one endpoint gives no issue, whatever its subnets.
\<close>

theorem parse_error_reported:
  assumes "i < j" and "j < length items"
    and "Spec_ClusterID (items ! i) \<noteq> Spec_ClusterID (items ! j)"
    and "k < length (Spec_Subnets (items ! j))"
    and "isOv (Spec_Subnets (items ! i)) (Spec_Subnets (items ! j) ! k) = Inl err"
    and "submarinerClientError (config item) = None"
    and "Endpoints_List (config item) (Submariner_Namespace submariner) = Inr items"
  shows "issuesOfSubnet isOv (items ! i) (items ! j) (Spec_Subnets (items ! j) ! k) =
           [ErrorParsingCIDR (Spec_ClusterID (items ! j)) err] \<and>
         issuesOfPair isOv (items ! i) (items ! j) =
           concat (map (issuesOfSubnet isOv (items ! i) (items ! j)) (Spec_Subnets (items ! j))) \<and>
         issuesOf isOv items =
           concat (map (\<lambda>(a, b). issuesOfPair isOv (items ! a) (items ! b))
                     (indexPairs (length items))) \<and>
         ErrorParsingCIDR (Spec_ClusterID (items ! j)) err \<in> set (issuesOf isOv items) \<and>
         issuesOfPair isOv (items ! i) (items ! j) =
           concat (map (\<lambda>subnet.
                case isOv (Spec_Subnets (items ! i)) subnet of
                  Inl err \<Rightarrow> [ErrorParsingCIDR (Spec_ClusterID (items ! j)) err]
                | Inr overlap \<Rightarrow>
                    if overlap
                    then [CIDROverlaps subnet (Spec_ClusterID (items ! j))
                            (Spec_ClusterID (items ! i)) (Spec_Subnets (items ! i))]
                    else [])
             (Spec_Subnets (items ! j))) \<and>
         issuesOf isOv [lone] = [] \<and>
         (ParseCIDR (Spec_Subnets (items ! j) ! k) = Inl err' \<longrightarrow>
            IsOverlapping ParseCIDR (Spec_Subnets (items ! i)) (Spec_Subnets (items ! j) ! k)
              = Inl err' \<and>
            ErrorParsingCIDR (Spec_ClusterID (items ! j)) err'
              \<in> set (issuesOf (IsOverlapping ParseCIDR) items)) \<and>
         issuesOf isOv items =
           concat (map (\<lambda>(a, b).
               if Spec_ClusterID (items ! a) = Spec_ClusterID (items ! b)
               then [MultipleEndpoints (Endpoint_Name (items ! a)) (Endpoint_Name (items ! b))
                       (Spec_ClusterID (items ! a))]
               else concat (map (\<lambda>subnet.
                      case isOv (Spec_Subnets (items ! a)) subnet of
                        Inl err \<Rightarrow> [ErrorParsingCIDR (Spec_ClusterID (items ! b)) err]
                      | Inr overlap \<Rightarrow>
                          if overlap
                          then [CIDROverlaps subnet (Spec_ClusterID (items ! b))
                                  (Spec_ClusterID (items ! a)) (Spec_Subnets (items ! a))]
                          else [])
                      (Spec_Subnets (items ! b))))
             (indexPairs (length items))) \<and>
         (\<exists>s' m sq pre wq.
            checkOverlappingCIDRs isOv item submariner s = Inr (False, s') \<and>
            printed s' \<noteq> [] \<and>
            last (printed s') = Ended Failure m sq (pre @ issuesOf isOv items) wq)"
proof -
  have explicit: "issuesOfPair isOv (items ! i) (items ! j) =
           concat (map (\<lambda>subnet.
                case isOv (Spec_Subnets (items ! i)) subnet of
                  Inl err \<Rightarrow> [ErrorParsingCIDR (Spec_ClusterID (items ! j)) err]
                | Inr overlap \<Rightarrow>
                    if overlap
                    then [CIDROverlaps subnet (Spec_ClusterID (items ! j))
                            (Spec_ClusterID (items ! i)) (Spec_Subnets (items ! i))]
                    else [])
             (Spec_Subnets (items ! j)))"
    using assms(3) by (simp only: issuesOfPair_explicit if_False)
  have single: "issuesOf isOv [lone] = []"
    by (simp add: issuesOf_def newStatus_def)
  have own: "ParseCIDR (Spec_Subnets (items ! j) ! k) = Inl err' \<longrightarrow>
            IsOverlapping ParseCIDR (Spec_Subnets (items ! i)) (Spec_Subnets (items ! j) ! k)
              = Inl err' \<and>
            ErrorParsingCIDR (Spec_ClusterID (items ! j)) err'
              \<in> set (issuesOf (IsOverlapping ParseCIDR) items)"
  proof
    assume "ParseCIDR (Spec_Subnets (items ! j) ! k) = Inl err'"
    then have t: "IsOverlapping ParseCIDR (Spec_Subnets (items ! i)) (Spec_Subnets (items ! j) ! k)
        = Inl err'"
      by (rule IsOverlapping_unparseable)
    from t error_issue_member [where isOv = "IsOverlapping ParseCIDR" and i = i and j = j
        and items = items and k = k and err = err', OF assms(1-4) t]
    show "IsOverlapping ParseCIDR (Spec_Subnets (items ! i)) (Spec_Subnets (items ! j) ! k)
              = Inl err' \<and>
            ErrorParsingCIDR (Spec_ClusterID (items ! j)) err'
              \<in> set (issuesOf (IsOverlapping ParseCIDR) items)"
      by (rule conjI)
  qed
  have run: "issuesOf isOv items =
           concat (map (\<lambda>(a, b).
               if Spec_ClusterID (items ! a) = Spec_ClusterID (items ! b)
               then [MultipleEndpoints (Endpoint_Name (items ! a)) (Endpoint_Name (items ! b))
                       (Spec_ClusterID (items ! a))]
               else concat (map (\<lambda>subnet.
                      case isOv (Spec_Subnets (items ! a)) subnet of
                        Inl err \<Rightarrow> [ErrorParsingCIDR (Spec_ClusterID (items ! b)) err]
                      | Inr overlap \<Rightarrow>
                          if overlap
                          then [CIDROverlaps subnet (Spec_ClusterID (items ! b))
                                  (Spec_ClusterID (items ! a)) (Spec_Subnets (items ! a))]
                          else [])
                      (Spec_Subnets (items ! b))))
             (indexPairs (length items)))"
    by (simp only: issuesOf_pairs [of isOv items] issuesOfPair_explicit)
  let ?e = "ErrorParsingCIDR (Spec_ClusterID (items ! j)) err"
  have sub: "issuesOfSubnet isOv (items ! i) (items ! j) (Spec_Subnets (items ! j) ! k) = [?e]"
    using assms(5) by (simp add: issuesOfSubnet_eq)
  have pair: "issuesOfPair isOv (items ! i) (items ! j) =
           concat (map (issuesOfSubnet isOv (items ! i) (items ! j)) (Spec_Subnets (items ! j)))"
    using assms(3) by (simp add: issuesOfPair_eq)
  have inpair: "?e \<in> set (issuesOfPair isOv (items ! i) (items ! j))"
  proof -
    have "Spec_Subnets (items ! j) ! k \<in> set (Spec_Subnets (items ! j))"
      using assms(4) by simp
    with sub show ?thesis unfolding pair by force
  qed
  have "(i, j) \<in> set (indexPairs (length items))"
    using assms(1,2) by (simp add: indexPairs_set)
  with inpair have mem: "?e \<in> set (issuesOf isOv items)"
    unfolding issuesOf_pairs [of isOv items] by force
  let ?m = "if Spec_GlobalCIDR submariner \<noteq> [] then GlobalnetDetected else NonGlobalnetDetected"
  let ?s1 = "Start ?m s"
  let ?s2 = "sourceLoop isOv items ?s1"
  have s2: "?s2 = ?s1\<lparr>failureQueue := failureQueue ?s1 @ issuesOf isOv items\<rparr>"
    by (rule sourceLoop_issuesOf)
  have has: "HasFailureMessages ?s2"
    using mem by (auto simp add: s2 HasFailureMessages_def)
  have st: "status ?s2 = Some ?m" by (simp add: s2 Start_fields)
  have res: "checkOverlappingCIDRs isOv item submariner s = Inr (False, End Failure ?s2)"
    using assms(6,7) has by (simp add: checkOverlappingCIDRs_def Let_def if_distrib [of "\<lambda>m. Start m s"] cong: if_cong)
  have pr: "printed (End Failure ?s2) =
      printed ?s1 @ [Ended Failure ?m (successQueue ?s1) (failureQueue ?s1 @ issuesOf isOv items)
         (warningQueue ?s1)]"
    using st by (simp add: End_def s2)
  have "\<exists>s' m sq pre wq.
            checkOverlappingCIDRs isOv item submariner s = Inr (False, s') \<and>
            printed s' \<noteq> [] \<and>
            last (printed s') = Ended Failure m sq (pre @ issuesOf isOv items) wq"
    using res pr by (intro exI [of _ "End Failure ?s2"] exI [of _ ?m] exI [of _ "successQueue ?s1"]
      exI [of _ "failureQueue ?s1"] exI [of _ "warningQueue ?s1"]) simp
  with sub pair issuesOf_pairs [of isOv items] mem explicit single own run show ?thesis
    by (intro conjI)
qed

theorem parse_error_reported_witness:
  "(0::nat) < 1 \<and> 1 < length [east, north] \<and>
   Spec_ClusterID ([east, north] ! 0) \<noteq> Spec_ClusterID ([east, north] ! 1) \<and>
   0 < length (Spec_Subnets ([east, north] ! 1)) \<and>
   IsOverlapping parseKnown (Spec_Subnets ([east, north] ! 0)) (Spec_Subnets ([east, north] ! 1) ! 0)
     = Inl (ParseError ''CIDR address'' ''10.0.1.0/33'') \<and>
   submarinerClientError (config cluster3) = None \<and>
   Endpoints_List (config cluster3) (Submariner_Namespace (submarinerOf ''north'')) = Inr [east, north] \<and>
   issuesOf (IsOverlapping parseKnown) [east, north] =
     [ErrorParsingCIDR ''north'' (ParseError ''CIDR address'' ''10.0.1.0/33''),
      CIDROverlaps ''10.0.1.0/24'' ''north'' ''east'' [''10.0.0.0/16'']] \<and>
   ErrorParsingCIDR ''north'' (ParseError ''CIDR address'' ''10.0.1.0/33'')
     \<in> set (issuesOf (IsOverlapping parseKnown) [east, north]) \<and>
   (\<exists>s'. checkOverlappingCIDRs (IsOverlapping parseKnown) cluster3 (submarinerOf ''north'') newStatus
            = Inr (False, s')) \<and>
   issuesOf (IsOverlapping parseKnown) [eastThird] = [] \<and>
   parseKnown (Spec_Subnets ([east, north] ! 1) ! 0) = Inl (ParseError ''CIDR address'' ''10.0.1.0/33'')"
proof -
  let ?items = "[east, north]"
  let ?err = "ParseError ''CIDR address'' ''10.0.1.0/33''"
  have h1: "(0::nat) < 1" by simp
  have h2: "1 < length ?items" by simp
  have h3: "Spec_ClusterID (?items ! 0) \<noteq> Spec_ClusterID (?items ! 1)"
    by (simp add: east_def north_def)
  have h4: "0 < length (Spec_Subnets (?items ! 1))" by (simp add: north_def)
  have h5: "IsOverlapping parseKnown (Spec_Subnets (?items ! 0)) (Spec_Subnets (?items ! 1) ! 0)
     = Inl ?err"
    by (simp add: east_def north_def IsOverlapping_def parseKnown_def knownPrefixes_def)
  have h6: "submarinerClientError (config cluster3) = None"
    by (simp add: cluster3_def northConfig_def)
  have h7: "Endpoints_List (config cluster3) (Submariner_Namespace (submarinerOf ''north'')) = Inr ?items"
    by (simp add: cluster3_def northConfig_def)
  note t = parse_error_reported [where i = 0 and j = 1 and items = ?items and k = 0
      and isOv = "IsOverlapping parseKnown" and err = ?err and item = cluster3
      and submariner = "submarinerOf ''north''" and s = newStatus and lone = eastThird
      and ParseCIDR = parseKnown and err' = ?err,
      OF h1 h2 h3 h4 h5 h6 h7]
  have h8: "parseKnown (Spec_Subnets (?items ! 1) ! 0) = Inl ?err"
    by (simp add: north_def parseKnown_def knownPrefixes_def)
  note o = t [THEN conjunct2, THEN conjunct2, THEN conjunct2, THEN conjunct2, THEN conjunct2,
      THEN conjunct2, THEN conjunct1, THEN mp, OF h8, THEN conjunct2]
  from t [THEN conjunct2, THEN conjunct2, THEN conjunct2, THEN conjunct1]
  have m: "ErrorParsingCIDR (Spec_ClusterID (?items ! 1)) ?err
      \<in> set (issuesOf (IsOverlapping parseKnown) ?items)" .
  then have m': "ErrorParsingCIDR ''north'' ?err \<in> set (issuesOf (IsOverlapping parseKnown) ?items)"
    by (simp add: north_def)
  from t [THEN conjunct2, THEN conjunct2, THEN conjunct2, THEN conjunct2, THEN conjunct2,
      THEN conjunct1]
  have l: "issuesOf (IsOverlapping parseKnown) [eastThird] = []" .
  from t [THEN conjunct2, THEN conjunct2, THEN conjunct2, THEN conjunct2, THEN conjunct2,
      THEN conjunct2, THEN conjunct2, THEN conjunct2]
  have r: "\<exists>s'. checkOverlappingCIDRs (IsOverlapping parseKnown) cluster3
      (submarinerOf ''north'') newStatus = Inr (False, s')" by (elim exE conjE) (rule exI)
  from o have o': "ErrorParsingCIDR ''north'' ?err \<in> set (issuesOf (IsOverlapping parseKnown) ?items)"
    by (simp add: north_def)
  from h1 h2 h3 h4 h5 h6 h7 issues_en o' r l h8 show ?thesis by (intro conjI)
qed

text \<open>
  C10, as stated, fails. In the list [north, east] the subnet that does not parse,
  10.0.1.0/33, is one of \<open>north\<close>, and the subnet of \<open>east\<close> parses; the test of that
  subnet of \<open>east\<close> against the subnets of \<open>north\<close> gives the error, and the one issue names
  the cluster east. And a cluster that lists the endpoint \<open>eastThird\<close> alone, whose only
  subnet is 10.0.1.0/33, gets the result true and the message of success: no pair, no
  test, nothing reported.
\<close>

theorem unparseable_subnet_misattributed_or_unreported:
  "parseKnown ''10.0.1.0/33'' = Inl (ParseError ''CIDR address'' ''10.0.1.0/33'') \<and>
   parseKnown ''10.0.0.0/16'' = Inr (IPNet (IPv4 0x0A000000) 16) \<and>
   Spec_Subnets north = [''10.0.1.0/33'', ''10.0.1.0/24''] \<and>
   Spec_Subnets east = [''10.0.0.0/16''] \<and>
   issuesOf (IsOverlapping parseKnown) [north, east] =
     [ErrorParsingCIDR ''east'' (ParseError ''CIDR address'' ''10.0.1.0/33'')] \<and>
   Spec_Subnets eastThird = [''10.0.1.0/33''] \<and>
   Endpoints_List (config cluster4) (Submariner_Namespace (submarinerOf ''east'')) = Inr [eastThird] \<and>
   checkOverlappingCIDRs (IsOverlapping parseKnown) cluster4 (submarinerOf ''east'') newStatus =
     Inr (True,
       \<lparr>status = None, successQueue = [], failureQueue = [], warningQueue = [],
        printed = [Started NonGlobalnetDetected,
                   Ended Success NonGlobalnetDetected [NoOverlappingCIDRs] [] []]\<rparr>)"
  by (simp add: issuesOf_def checkPair_def checkOverlappingCIDRs_def status_defs
        cluster4_def loneConfig_def submarinerOf_def east_def north_def eastThird_def
        IsOverlapping_def parseKnown_def knownPrefixes_def)

subsection \<open>The order of two endpoints\<close>

lemma issuesOf_two: "issuesOf isOv [a, b] = issuesOfPair isOv a b"
  by (simp add: issuesOf_def issuesOfPair_def)

lemma issuesOfPair_empty_parsed:
  assumes "\<forall>v \<in> set (Spec_Subnets a). \<exists>n. ParseCIDR v = Inr n"
    and "\<forall>v \<in> set (Spec_Subnets b). \<exists>n. ParseCIDR v = Inr n"
  shows "issuesOfPair (IsOverlapping ParseCIDR) a b = [] \<longleftrightarrow>
           Spec_ClusterID a \<noteq> Spec_ClusterID b \<and>
           (\<forall>x \<in> set (Spec_Subnets a). \<forall>y \<in> set (Spec_Subnets b).
               \<not> intersects (projr (ParseCIDR x)) (projr (ParseCIDR y)))"
proof (cases "Spec_ClusterID a = Spec_ClusterID b")
  case True
  then show ?thesis by (simp add: issuesOfPair_eq)
next
  case False
  have "\<And>y. y \<in> set (Spec_Subnets b) \<Longrightarrow>
      issuesOfSubnet (IsOverlapping ParseCIDR) a b y = [] \<longleftrightarrow>
      (\<forall>x \<in> set (Spec_Subnets a). \<not> intersects (projr (ParseCIDR x)) (projr (ParseCIDR y)))"
    using assms by (simp add: issuesOfSubnet_eq IsOverlapping_parsed)
  with False show ?thesis by (auto simp add: issuesOfPair_eq)
qed

text \<open>
  C2, as amended. The run evaluates each pair of positions \<open>i < j\<close> once, in order, also
  when a cluster ID occurs three times or more, and its issues are those of the pairs,
  one after the other. A pair of one cluster gives one message, the name of the earlier
  endpoint first. A pair of two clusters gives, for each subnet of the later endpoint in
  turn, the error of the intersection test against the subnets of the earlier endpoint,
  or an overlap issue with that subnet, the later cluster, the earlier cluster and the
  subnets of the earlier endpoint when the test finds an overlap, or nothing. So the
  issues depend on the order of two endpoints; for two endpoints whose subnets all
  parse, one order gives no issue exactly when the other gives none.
\<close>

theorem pairs_once_and_symmetric_verdict:
  "issuesOf isOv items =
     concat (map (\<lambda>(i, j). issuesOfPair isOv (items ! i) (items ! j)) (indexPairs (length items))) \<and>
   distinct (indexPairs (length items)) \<and>
   set (indexPairs (length items)) = {(i, j). i < j \<and> j < length items} \<and>
   (Spec_ClusterID a = Spec_ClusterID b \<longrightarrow>
      issuesOf isOv [a, b] =
        [MultipleEndpoints (Endpoint_Name a) (Endpoint_Name b) (Spec_ClusterID a)] \<and>
      issuesOf isOv [b, a] =
        [MultipleEndpoints (Endpoint_Name b) (Endpoint_Name a) (Spec_ClusterID a)]) \<and>
   ((\<forall>v \<in> set (Spec_Subnets a) \<union> set (Spec_Subnets b). \<exists>n. ParseCIDR v = Inr n) \<longrightarrow>
      (issuesOf (IsOverlapping ParseCIDR) [a, b] = [] \<longleftrightarrow>
       issuesOf (IsOverlapping ParseCIDR) [b, a] = [])) \<and>
   issuesOf isOv items =
     concat (map (\<lambda>(i, j).
         if Spec_ClusterID (items ! i) = Spec_ClusterID (items ! j)
         then [MultipleEndpoints (Endpoint_Name (items ! i)) (Endpoint_Name (items ! j))
                 (Spec_ClusterID (items ! i))]
         else concat (map (\<lambda>subnet.
             case isOv (Spec_Subnets (items ! i)) subnet of
               Inl err \<Rightarrow> [ErrorParsingCIDR (Spec_ClusterID (items ! j)) err]
             | Inr overlap \<Rightarrow>
                 if overlap
                 then [CIDROverlaps subnet (Spec_ClusterID (items ! j)) (Spec_ClusterID (items ! i))
                         (Spec_Subnets (items ! i))]
                 else [])
                (Spec_Subnets (items ! j))))
       (indexPairs (length items))) \<and>
   (Spec_ClusterID a \<noteq> Spec_ClusterID b \<longrightarrow>
      issuesOf isOv [a, b] =
        concat (map (\<lambda>subnet.
             case isOv (Spec_Subnets a) subnet of
               Inl err \<Rightarrow> [ErrorParsingCIDR (Spec_ClusterID b) err]
             | Inr overlap \<Rightarrow>
                 if overlap
                 then [CIDROverlaps subnet (Spec_ClusterID b) (Spec_ClusterID a)
                         (Spec_Subnets a)]
                 else []) (Spec_Subnets b)) \<and>
      issuesOf isOv [b, a] =
        concat (map (\<lambda>subnet.
             case isOv (Spec_Subnets b) subnet of
               Inl err \<Rightarrow> [ErrorParsingCIDR (Spec_ClusterID a) err]
             | Inr overlap \<Rightarrow>
                 if overlap
                 then [CIDROverlaps subnet (Spec_ClusterID a) (Spec_ClusterID b)
                         (Spec_Subnets b)]
                 else []) (Spec_Subnets a)))"
proof -
  have run: "issuesOf isOv items =
     concat (map (\<lambda>(i, j).
         if Spec_ClusterID (items ! i) = Spec_ClusterID (items ! j)
         then [MultipleEndpoints (Endpoint_Name (items ! i)) (Endpoint_Name (items ! j))
                 (Spec_ClusterID (items ! i))]
         else concat (map (\<lambda>subnet.
             case isOv (Spec_Subnets (items ! i)) subnet of
               Inl err \<Rightarrow> [ErrorParsingCIDR (Spec_ClusterID (items ! j)) err]
             | Inr overlap \<Rightarrow>
                 if overlap
                 then [CIDROverlaps subnet (Spec_ClusterID (items ! j)) (Spec_ClusterID (items ! i))
                         (Spec_Subnets (items ! i))]
                 else [])
                (Spec_Subnets (items ! j))))
       (indexPairs (length items)))"
    by (simp only: issuesOf_pairs [of isOv items] issuesOfPair_explicit)
  have two: "Spec_ClusterID a \<noteq> Spec_ClusterID b \<longrightarrow>
      issuesOf isOv [a, b] =
        concat (map (\<lambda>subnet.
             case isOv (Spec_Subnets a) subnet of
               Inl err \<Rightarrow> [ErrorParsingCIDR (Spec_ClusterID b) err]
             | Inr overlap \<Rightarrow>
                 if overlap
                 then [CIDROverlaps subnet (Spec_ClusterID b) (Spec_ClusterID a)
                         (Spec_Subnets a)]
                 else []) (Spec_Subnets b)) \<and>
      issuesOf isOv [b, a] =
        concat (map (\<lambda>subnet.
             case isOv (Spec_Subnets b) subnet of
               Inl err \<Rightarrow> [ErrorParsingCIDR (Spec_ClusterID a) err]
             | Inr overlap \<Rightarrow>
                 if overlap
                 then [CIDROverlaps subnet (Spec_ClusterID a) (Spec_ClusterID b)
                         (Spec_Subnets b)]
                 else []) (Spec_Subnets a))"
  proof
    assume d: "Spec_ClusterID a \<noteq> Spec_ClusterID b"
    then have d': "Spec_ClusterID b \<noteq> Spec_ClusterID a" by simp
    have ab: "issuesOf isOv [a, b] =
        concat (map (\<lambda>subnet.
             case isOv (Spec_Subnets a) subnet of
               Inl err \<Rightarrow> [ErrorParsingCIDR (Spec_ClusterID b) err]
             | Inr overlap \<Rightarrow>
                 if overlap
                 then [CIDROverlaps subnet (Spec_ClusterID b) (Spec_ClusterID a)
                         (Spec_Subnets a)]
                 else []) (Spec_Subnets b))"
      using d by (simp only: issuesOf_two issuesOfPair_explicit if_False)
    have ba: "issuesOf isOv [b, a] =
        concat (map (\<lambda>subnet.
             case isOv (Spec_Subnets b) subnet of
               Inl err \<Rightarrow> [ErrorParsingCIDR (Spec_ClusterID a) err]
             | Inr overlap \<Rightarrow>
                 if overlap
                 then [CIDROverlaps subnet (Spec_ClusterID a) (Spec_ClusterID b)
                         (Spec_Subnets b)]
                 else []) (Spec_Subnets a))"
      using d' by (simp only: issuesOf_two issuesOfPair_explicit if_False)
    from ab ba show "issuesOf isOv [a, b] =
        concat (map (\<lambda>subnet.
             case isOv (Spec_Subnets a) subnet of
               Inl err \<Rightarrow> [ErrorParsingCIDR (Spec_ClusterID b) err]
             | Inr overlap \<Rightarrow>
                 if overlap
                 then [CIDROverlaps subnet (Spec_ClusterID b) (Spec_ClusterID a)
                         (Spec_Subnets a)]
                 else []) (Spec_Subnets b)) \<and>
      issuesOf isOv [b, a] =
        concat (map (\<lambda>subnet.
             case isOv (Spec_Subnets b) subnet of
               Inl err \<Rightarrow> [ErrorParsingCIDR (Spec_ClusterID a) err]
             | Inr overlap \<Rightarrow>
                 if overlap
                 then [CIDROverlaps subnet (Spec_ClusterID a) (Spec_ClusterID b)
                         (Spec_Subnets b)]
                 else []) (Spec_Subnets a))"
      by (rule conjI)
  qed
  have dup: "Spec_ClusterID a = Spec_ClusterID b \<longrightarrow>
      issuesOf isOv [a, b] =
        [MultipleEndpoints (Endpoint_Name a) (Endpoint_Name b) (Spec_ClusterID a)] \<and>
      issuesOf isOv [b, a] =
        [MultipleEndpoints (Endpoint_Name b) (Endpoint_Name a) (Spec_ClusterID a)]"
    by (simp add: issuesOf_two issuesOfPair_eq)
  have sym: "(\<forall>v \<in> set (Spec_Subnets a) \<union> set (Spec_Subnets b). \<exists>n. ParseCIDR v = Inr n) \<longrightarrow>
      (issuesOf (IsOverlapping ParseCIDR) [a, b] = [] \<longleftrightarrow>
       issuesOf (IsOverlapping ParseCIDR) [b, a] = [])"
  proof
    assume p: "\<forall>v \<in> set (Spec_Subnets a) \<union> set (Spec_Subnets b). \<exists>n. ParseCIDR v = Inr n"
    then have pa: "\<forall>v \<in> set (Spec_Subnets a). \<exists>n. ParseCIDR v = Inr n"
      and pb: "\<forall>v \<in> set (Spec_Subnets b). \<exists>n. ParseCIDR v = Inr n" by auto
    have swap: "(\<forall>x \<in> set (Spec_Subnets a). \<forall>y \<in> set (Spec_Subnets b).
               \<not> intersects (projr (ParseCIDR x)) (projr (ParseCIDR y))) \<longleftrightarrow>
          (\<forall>x \<in> set (Spec_Subnets b). \<forall>y \<in> set (Spec_Subnets a).
               \<not> intersects (projr (ParseCIDR x)) (projr (ParseCIDR y)))"
      by (metis intersects_commute)
    have ab: "issuesOf (IsOverlapping ParseCIDR) [a, b] = [] \<longleftrightarrow>
           Spec_ClusterID a \<noteq> Spec_ClusterID b \<and>
           (\<forall>x \<in> set (Spec_Subnets a). \<forall>y \<in> set (Spec_Subnets b).
               \<not> intersects (projr (ParseCIDR x)) (projr (ParseCIDR y)))"
      by (simp only: issuesOf_two issuesOfPair_empty_parsed [OF pa pb])
    have ba: "issuesOf (IsOverlapping ParseCIDR) [b, a] = [] \<longleftrightarrow>
           Spec_ClusterID b \<noteq> Spec_ClusterID a \<and>
           (\<forall>x \<in> set (Spec_Subnets b). \<forall>y \<in> set (Spec_Subnets a).
               \<not> intersects (projr (ParseCIDR x)) (projr (ParseCIDR y)))"
      by (simp only: issuesOf_two issuesOfPair_empty_parsed [OF pb pa])
    show "issuesOf (IsOverlapping ParseCIDR) [a, b] = [] \<longleftrightarrow>
       issuesOf (IsOverlapping ParseCIDR) [b, a] = []"
      unfolding ab ba using swap by (simp add: eq_commute [of "Spec_ClusterID b"])
  qed
  from issuesOf_pairs [of isOv items] indexPairs_distinct [of "length items"]
    indexPairs_set [of "length items"] dup sym run two
  show ?thesis by (intro conjI)
qed

theorem pairs_once_and_symmetric_verdict_witness:
  "issuesOf (IsOverlapping parseKnown) [east, eastSecond, eastThird] =
     issuesOfPair (IsOverlapping parseKnown) east eastSecond @
     issuesOfPair (IsOverlapping parseKnown) east eastThird @
     issuesOfPair (IsOverlapping parseKnown) eastSecond eastThird \<and>
   issuesOf (IsOverlapping parseKnown) [east, eastSecond] =
     [MultipleEndpoints ''east-gw'' ''east-gw-2'' ''east''] \<and>
   issuesOf (IsOverlapping parseKnown) [eastSecond, east] =
     [MultipleEndpoints ''east-gw-2'' ''east-gw'' ''east''] \<and>
   (issuesOf (IsOverlapping parseKnown) [east, west] = []) =
   (issuesOf (IsOverlapping parseKnown) [west, east] = []) \<and>
   (issuesOf (IsOverlapping parseKnown) [east, south] = []) =
   (issuesOf (IsOverlapping parseKnown) [south, east] = []) \<and>
   issuesOf (IsOverlapping parseKnown) [east, west] =
     [CIDROverlaps ''10.0.1.0/24'' ''west'' ''east'' [''10.0.0.0/16''],
      CIDROverlaps ''10.0.2.0/24'' ''west'' ''east'' [''10.0.0.0/16'']] \<and>
   issuesOf (IsOverlapping parseKnown) [west, east] =
     [CIDROverlaps ''10.0.0.0/16'' ''east'' ''west'' [''10.0.1.0/24'', ''10.0.2.0/24'']]"
proof -
  let ?isOv = "IsOverlapping parseKnown"
  note t3 = pairs_once_and_symmetric_verdict [of ?isOv "[east, eastSecond, eastThird]" east eastSecond parseKnown]
  note tw = pairs_once_and_symmetric_verdict [of ?isOv "[east, west]" east west parseKnown]
  note ts = pairs_once_and_symmetric_verdict [of ?isOv "[east, south]" east south parseKnown]
  have ip: "indexPairs (length [east, eastSecond, eastThird]) = [(0, 1), (0, 2), (1, 2)]"
    by (simp add: indexPairs_def upt_rec)
  have a: "issuesOf ?isOv [east, eastSecond, eastThird] =
     issuesOfPair ?isOv east eastSecond @ issuesOfPair ?isOv east eastThird @
     issuesOfPair ?isOv eastSecond eastThird"
    using t3 [THEN conjunct1] unfolding ip by simp
  have same: "Spec_ClusterID east = Spec_ClusterID eastSecond"
    by (simp add: east_def eastSecond_def)
  from t3 [THEN conjunct2, THEN conjunct2, THEN conjunct2, THEN conjunct1, THEN mp, OF same] have
    "issuesOf ?isOv [east, eastSecond] =
        [MultipleEndpoints (Endpoint_Name east) (Endpoint_Name eastSecond) (Spec_ClusterID east)] \<and>
      issuesOf ?isOv [eastSecond, east] =
        [MultipleEndpoints (Endpoint_Name eastSecond) (Endpoint_Name east) (Spec_ClusterID east)]" .
  then have b: "issuesOf ?isOv [east, eastSecond] =
       [MultipleEndpoints ''east-gw'' ''east-gw-2'' ''east''] \<and>
     issuesOf ?isOv [eastSecond, east] =
       [MultipleEndpoints ''east-gw-2'' ''east-gw'' ''east'']"
    by (simp add: east_def eastSecond_def)
  have pw: "\<forall>v \<in> set (Spec_Subnets east) \<union> set (Spec_Subnets west). \<exists>n. parseKnown v = Inr n"
    by (simp add: east_def west_def parseKnown_subnets)
  have ps: "\<forall>v \<in> set (Spec_Subnets east) \<union> set (Spec_Subnets south). \<exists>n. parseKnown v = Inr n"
    by (simp add: east_def south_def parseKnown_subnets)
  from tw [THEN conjunct2, THEN conjunct2, THEN conjunct2, THEN conjunct2, THEN conjunct1,
      THEN mp, OF pw]
  have c: "(issuesOf ?isOv [east, west] = []) = (issuesOf ?isOv [west, east] = [])" .
  from ts [THEN conjunct2, THEN conjunct2, THEN conjunct2, THEN conjunct2, THEN conjunct1,
      THEN mp, OF ps]
  have d: "(issuesOf ?isOv [east, south] = []) = (issuesOf ?isOv [south, east] = [])" .
  have differ: "Spec_ClusterID east \<noteq> Spec_ClusterID west"
    by (simp add: east_def west_def)
  note e = tw [THEN conjunct2, THEN conjunct2, THEN conjunct2, THEN conjunct2, THEN conjunct2,
      THEN conjunct2, THEN mp, OF differ]
  have e1: "issuesOf ?isOv [east, west] =
     [CIDROverlaps ''10.0.1.0/24'' ''west'' ''east'' [''10.0.0.0/16''],
      CIDROverlaps ''10.0.2.0/24'' ''west'' ''east'' [''10.0.0.0/16'']]"
    unfolding e [THEN conjunct1]
    by (simp add: east_def west_def IsOverlapping_def parseKnown_def knownPrefixes_def
        intersects_def CIDRMask_def mask_eq_exp_minus_1)
  have e2: "issuesOf ?isOv [west, east] =
     [CIDROverlaps ''10.0.0.0/16'' ''east'' ''west'' [''10.0.1.0/24'', ''10.0.2.0/24'']]"
    unfolding e [THEN conjunct2]
    by (simp add: east_def west_def IsOverlapping_def parseKnown_def knownPrefixes_def
        intersects_def CIDRMask_def mask_eq_exp_minus_1)
  from a b c d e1 e2 show ?thesis by (intro conjI) simp_all
qed

text \<open>
  C2, as stated, fails: for \<open>east\<close> (10.0.0.0/16) and \<open>west\<close> (10.0.1.0/24 and
  10.0.2.0/24) the list [east, west] gives two issues, one for each subnet of \<open>west\<close>,
  and the list [west, east] gives one issue, for the subnet of \<open>east\<close>.
\<close>

theorem issue_set_depends_on_order:
  "issuesOf (IsOverlapping parseKnown) [east, west] =
     [CIDROverlaps ''10.0.1.0/24'' ''west'' ''east'' [''10.0.0.0/16''],
      CIDROverlaps ''10.0.2.0/24'' ''west'' ''east'' [''10.0.0.0/16'']] \<and>
   issuesOf (IsOverlapping parseKnown) [west, east] =
     [CIDROverlaps ''10.0.0.0/16'' ''east'' ''west'' [''10.0.1.0/24'', ''10.0.2.0/24'']] \<and>
   set (issuesOf (IsOverlapping parseKnown) [east, west]) \<noteq>
   set (issuesOf (IsOverlapping parseKnown) [west, east])"
  by (simp add: issues_ew issues_we)

section \<open>The loop over the clusters: properties\<close>

text \<open>
  Once \<^verbatim>\<open>validationStatus\<close> is false the loop still visits every remaining cluster and
  retrieves its Submariner resource, but calls neither check: the result is false, and
  the report only gains the lines of the retrievals.
\<close>

lemma validateLoop_after_failure:
  "validateLoop isOv ns items False s =
     Inr (False,
       foldl (\<lambda>s item.
            End Success
              (case getSubmarinerResource (config item) of
                 None \<Rightarrow> QueueWarningMessage SubmMissingMessage
                           (Start (RetrievingResource (clusterName item)) s)
               | Some submariner \<Rightarrow> Start (RetrievingResource (clusterName item)) s))
         s items)"
  by (induction items arbitrary: s) (simp_all add: Let_def split: option.splits)

lemma checkPods_cluster2:
  "checkPods cluster2 (submarinerOf ''west'') ''submariner-operator'' newStatus =
     Inr (True,
      \<lparr>status = None, successQueue = [], failureQueue = [], warningQueue = [],
       printed = [Started (CheckingPods ''cluster2''),
          Ended Success (CheckingPods ''cluster2'') [AllPodsRunning] [] []]\<rparr>)"
  by (simp add: checkPods_def CheckDaemonset_def checkPodsStatus_def
        cluster2_def healthyConfig_def submarinerOf_def status_defs)

lemma checkOverlappingCIDRs_cluster1:
  "checkOverlappingCIDRs (IsOverlapping parseKnown) cluster1 (submarinerOf ''east'') newStatus =
     Inr (False,
      \<lparr>status = None, successQueue = [], failureQueue = [], warningQueue = [],
       printed = [Started NonGlobalnetDetected,
          Ended Failure NonGlobalnetDetected []
            [CIDROverlaps ''10.0.1.0/24'' ''west'' ''east'' [''10.0.0.0/16''],
             CIDROverlaps ''10.0.2.0/24'' ''west'' ''east'' [''10.0.0.0/16'']] []]\<rparr>)"
  by (simp add: checkOverlappingCIDRs_def checkPair_def
        cluster1_def brokenConfig_def submarinerOf_def status_defs
        east_def west_def IsOverlapping_def parseKnown_def knownPrefixes_def
        intersects_def CIDRMask_def mask_eq_exp_minus_1)

lemma run_healthy_first:
  "validateSubmarinerDeployment (IsOverlapping parseKnown) ''submariner-operator''
      (Inr [cluster2, cluster1]) newStatus =
     (Exit 1,
      \<lparr>status = None, successQueue = [], failureQueue = [], warningQueue = [],
       printed =
         [Started (RetrievingResource ''cluster2''),
          Ended Success (RetrievingResource ''cluster2'') [] [] [],
          Started (CheckingPods ''cluster2''),
          Ended Success (CheckingPods ''cluster2'') [AllPodsRunning] [] [],
          Started NonGlobalnetDetected,
          Ended Failure NonGlobalnetDetected []
            [CIDROverlaps ''10.0.1.0/24'' ''west'' ''east'' [''10.0.0.0/16''],
             CIDROverlaps ''10.0.2.0/24'' ''west'' ''east'' [''10.0.0.0/16'']] [],
          Started (RetrievingResource ''cluster1''),
          Ended Success (RetrievingResource ''cluster1'') [] [] []]\<rparr>)"
  by (simp add: validateSubmarinerDeployment_def checkPods_def CheckDaemonset_def checkPodsStatus_def
        checkOverlappingCIDRs_def checkPair_def
        cluster1_def cluster2_def brokenConfig_def healthyConfig_def submarinerOf_def status_defs
        east_def west_def IsOverlapping_def parseKnown_def knownPrefixes_def
        intersects_def CIDRMask_def mask_eq_exp_minus_1)

text \<open>
  C1, at the input where the code departs from it. The first cluster's gateway daemon
  set has no pod scheduled, so its \<^verbatim>\<open>checkPods\<close> is false. The run exits with status 1,
  and its whole report is the retrieval and the pod check of the first cluster and the
  retrieval of the second: the overlap check of the first cluster and both checks of the
  second are never evaluated, although the Submariner resource of each is present.
\<close>

theorem checks_skipped_after_first_failure:
  "validateSubmarinerDeployment (IsOverlapping parseKnown) ''submariner-operator''
      (Inr [cluster1, cluster2]) newStatus =
     (Exit 1,
      \<lparr>status = None, successQueue = [], failureQueue = [], warningQueue = [],
       printed =
         [Started (RetrievingResource ''cluster1''),
          Ended Success (RetrievingResource ''cluster1'') [] [] [],
          Started (CheckingPods ''cluster1''),
          Ended Failure (CheckingPods ''cluster1'') [] [DaemonSetPods ''submariner-gateway'' 1 0] [],
          Started (RetrievingResource ''cluster2''),
          Ended Success (RetrievingResource ''cluster2'') [] [] []]\<rparr>) \<and>
   getSubmarinerResource (config cluster1) = Some (submarinerOf ''east'') \<and>
   getSubmarinerResource (config cluster2) = Some (submarinerOf ''west'')"
  by (simp add: validateSubmarinerDeployment_def checkPods_def CheckDaemonset_def
        cluster1_def cluster2_def brokenConfig_def healthyConfig_def submarinerOf_def status_defs)

end
